theory Spec2Isabelle
  imports Main "HOL-Library.Word"
begin

unbundle bit_operations_syntax

section \<open>The AR0144 sensor driver (drivers/media/i2c/ar0144.c)\<close>

text \<open>
  A shallow embedding of the driver. The C integers \<open>u8\<close>, \<open>u16\<close> and \<open>u32\<close> are words;
  the \<open>int\<close> return codes are HOL integers (the driver only compares them with 0 and
  negates an errno constant). Everything the driver does to the outside world (the I2C
  bus, the reset GPIO, sleeping, the device mutex, the kernel log) is appended, in
  program order, to an event log that is threaded through every function. What the
  outside world answers is a parameter: the return values of \<open>i2c_master_send\<close> and
  \<open>i2c_master_recv\<close> are functions of everything that happened before the call and of
  the request itself.
\<close>

subsection \<open>Data\<close>

type_synonym u8 = "8 word"
type_synonym u16 = "16 word"
type_synonym u32 = "32 word"

text \<open>
  Macros and enumerators the file uses from the kernel headers it includes. The headers
  are not part of the modelled file, so their values are a parameter of the model.
\<close>

record linux_hdr =
  ENOMEM :: int
  EINVAL :: int
  ENODEV :: int
  EPROBE_DEFER :: int
  MEDIA_BUS_FMT_SRGGB12_1X12 :: u32
  V4L2_FIELD_NONE :: u32
  V4L2_COLORSPACE_SRGB :: u32
  V4L2_SUBDEV_FORMAT_TRY :: u32
  V4L2_SUBDEV_FORMAT_ACTIVE :: u32
  V4L2_SEL_TGT_CROP :: u32
  V4L2_MBUS_CSI2 :: u32

definition AR0144_I2C_ADDR :: u16 where
  "AR0144_I2C_ADDR = 0x10"

definition AR0144_ID_REG :: u16 where
  "AR0144_ID_REG = 0x3000"

definition AR0144_ID_VAL :: u16 where
  "AR0144_ID_VAL = 0x1356"

text \<open>\<open>struct ar0144_reg_value\<close>: a register address and the value to write there.\<close>

type_synonym ar0144_reg_value = "u16 \<times> u16"

text \<open>
  \<open>struct v4l2_mbus_framefmt\<close> and \<open>struct v4l2_rect\<close>, with the members the driver
  assigns or hands out.
\<close>

record v4l2_mbus_framefmt =
  width :: u32
  height :: u32
  code :: u32
  field :: u32
  colorspace :: u32

record v4l2_rect =
  rect_left :: u32
  rect_top :: u32
  rect_width :: u32
  rect_height :: u32

text \<open>
  \<open>struct ar0144\<close>: the members that hold data. The handles (\<open>i2c_client\<close>, \<open>dev\<close>,
  \<open>sd\<close>, \<open>pad\<close>, \<open>rst_gpio\<close>, \<open>lock\<close>) stand for the outside world and appear as events.
\<close>

record ar0144 =
  ep_bus_type :: u32
  fmt :: v4l2_mbus_framefmt
  crop :: v4l2_rect
  streaming :: bool

datatype event =
    Mutex_lock
  | Mutex_unlock
  | Gpiod_direction_output int
  | Gpiod_set_value_cansleep int
  | Msleep nat
  | Bus_send "u8 list"
  | Bus_recv nat
  | Dev_err string "int list"
  | Dev_info string "int list"
  | Kernel_call string

text \<open>
  The I2C adapter. \<open>i2c_master_send\<close> returns a negative errno or the number of bytes
  sent; \<open>i2c_master_recv\<close> returns a negative errno or the number of bytes received,
  together with the contents of the caller's two-byte buffer after the call.
\<close>

record bus =
  i2c_master_send :: "event list \<Rightarrow> u8 list \<Rightarrow> int"
  i2c_master_recv :: "event list \<Rightarrow> nat \<Rightarrow> int \<times> u8 \<times> u8"

text \<open>The device structure together with the log of what the driver has done so far.\<close>

record machine =
  dev :: ar0144
  log :: "event list"

definition emit :: "machine \<Rightarrow> event list \<Rightarrow> machine" where
  "emit m es = m\<lparr>log := log m @ es\<rparr>"

subsection \<open>Framework structures and pointers\<close>

text \<open>
  \<open>struct v4l2_subdev_mbus_code_enum\<close> and \<open>struct v4l2_subdev_frame_size_enum\<close>. Neither
  enumeration call looks at the device structure.
\<close>

record v4l2_subdev_mbus_code_enum =
  mce_pad :: u32
  mce_index :: u32
  mce_code :: u32

record v4l2_subdev_frame_size_enum =
  fse_index :: u32
  fse_pad :: u32
  fse_code :: u32
  fse_min_width :: u32
  fse_max_width :: u32
  fse_min_height :: u32
  fse_max_height :: u32

text \<open>
  A dereferenced null pointer stops the kernel thread; the model returns it as a fault.
\<close>

datatype fault = Null_pointer_dereference

datatype 'a ptr = NULL | Ptr 'a

text \<open>
  The objects the two pointer helpers can point to: the \<open>fmt\<close> and the \<open>crop\<close> member of
  the device structure. The driver takes the address of no other format or rectangle.
\<close>

datatype fmt_object = Ar0144_fmt

datatype rect_object = Ar0144_crop

fun load_fmt :: "machine \<Rightarrow> fmt_object \<Rightarrow> v4l2_mbus_framefmt" where
  "load_fmt m Ar0144_fmt = fmt (dev m)"

fun store_fmt :: "machine \<Rightarrow> fmt_object \<Rightarrow> v4l2_mbus_framefmt \<Rightarrow> machine" where
  "store_fmt m Ar0144_fmt f = m\<lparr>dev := (dev m)\<lparr>fmt := f\<rparr>\<rparr>"

fun load_rect :: "machine \<Rightarrow> rect_object \<Rightarrow> v4l2_rect" where
  "load_rect m Ar0144_crop = crop (dev m)"

text \<open>
  \<open>struct v4l2_subdev_pad_config\<close> (the framework's per-file-handle trial storage),
  \<open>struct v4l2_subdev_format\<close> and \<open>struct v4l2_subdev_selection\<close>.
\<close>

record v4l2_subdev_pad_config =
  try_fmt :: v4l2_mbus_framefmt
  try_crop :: v4l2_rect

record v4l2_subdev_format =
  which :: u32
  pad :: u32
  format :: v4l2_mbus_framefmt

record v4l2_subdev_selection =
  sel_which :: u32
  sel_pad :: u32
  sel_target :: u32
  sel_flags :: u32
  sel_r :: v4l2_rect

subsection \<open>Register programs\<close>

definition ar0144at_rev4_recommended_setting :: "ar0144_reg_value list" where
  "ar0144at_rev4_recommended_setting =
    [(0x3ED6, 0x3CB5), (0x3ED8, 0x8765), (0x3EDA, 0x8888), (0x3EDC, 0x97FF),
     (0x3EF8, 0x6522), (0x3EFA, 0x2222), (0x3EFC, 0x6666), (0x3F00, 0xAA05),
     (0x3EE2, 0x180E), (0x3EE4, 0x0808), (0x3EEA, 0x2A09), (0x3060, 0x000D),
     (0x3092, 0x00CF), (0x3268, 0x0030), (0x3786, 0x0060), (0x3F4A, 0x0F70),
     (0x306E, 0x4810), (0x3064, 0x1802), (0x3EF6, 0x804D), (0x3180, 0xC08F),
     (0x30BA, 0x7623), (0x3176, 0x0480), (0x3178, 0x0480), (0x317A, 0x0480),
     (0x317C, 0x0480)]"

definition ar0144at_pll_27mhz :: "ar0144_reg_value list" where
  "ar0144at_pll_27mhz =
    [(0x302A, 0x0006), (0x302C, 0x0001), (0x302E, 0x0004), (0x3030, 0x0042),
     (0x3036, 0x000C), (0x3038, 0x0001)]"

definition ar0144at_mipi_2lane_12bit :: "ar0144_reg_value list" where
  "ar0144at_mipi_2lane_12bit =
    [(0x31AE, 0x0202), (0x31AC, 0x0C0C), (0x31B0, 0x0042), (0x31B2, 0x002E),
     (0x31B4, 0x1665), (0x31B6, 0x110E), (0x31B8, 0x2047), (0x31BA, 0x0105),
     (0x31BC, 0x0004)]"

definition ar0144at_1280x800_60fps :: "ar0144_reg_value list" where
  "ar0144at_1280x800_60fps =
    [(0x3002, 0x0000), (0x3004, 0x0004), (0x3006, 0x031F), (0x3008, 0x0503),
     (0x300A, 0x0339), (0x300C, 0x05D0), (0x3012, 0x0064), (0x30A2, 0x0001),
     (0x30A6, 0x0001), (0x3040, 0x0000)]"

definition ar0144at_context_b_2x2_binning :: "ar0144_reg_value list" where
  "ar0144at_context_b_2x2_binning =
    [(0x3040, 0x1000), (0x30A8, 0x0003), (0x3040, 0x3000), (0x30AE, 0x0003)]"

definition ar0144at_embedded_data_stats :: "ar0144_reg_value list" where
  "ar0144at_embedded_data_stats = [(0x3064, 0x1982)]"

definition ar0144at_start_stream :: "ar0144_reg_value list" where
  "ar0144at_start_stream = [(0x3028, 0x0010), (0x301A, 0x005C)]"

definition ar0144at_stop_stream :: "ar0144_reg_value list" where
  "ar0144at_stop_stream = [(0x301A, 0x0058)]"

subsection \<open>Register transport\<close>

text \<open>
  \<open>ar0144_write_reg\<close>: fills the four-byte buffer, sends it, logs an error when the send
  returns a negative code, and returns whatever the send returned.
\<close>

definition ar0144_write_reg :: "bus \<Rightarrow> machine \<Rightarrow> u16 \<Rightarrow> u16 \<Rightarrow> int \<times> machine" where
  "ar0144_write_reg b m reg val =
    (let regbuf = [ucast (drop_bit 8 reg), ucast (reg AND 0xff),
                   ucast (drop_bit 8 val), ucast (val AND 0xff)] :: u8 list;
         ret = i2c_master_send b (log m) regbuf;
         m1 = emit m [Bus_send regbuf]
     in if ret < 0
        then (ret, emit m1 [Dev_err ''write reg error'' [ret, uint reg, uint val]])
        else (ret, m1))"

text \<open>
  \<open>ar0144_read_reg\<close>: sends the two address bytes, then receives two bytes into the same
  buffer. The result is \<open>Inl ret\<close> for an early return of the negative code \<open>ret\<close> (the
  output parameter is then not written), and \<open>Inr v\<close> for a return of 0 with \<open>*val = v\<close>.
\<close>

definition ar0144_read_reg :: "bus \<Rightarrow> machine \<Rightarrow> u16 \<Rightarrow> (int + u16) \<times> machine" where
  "ar0144_read_reg b m reg =
    (let buf = [ucast (drop_bit 8 reg), ucast (reg AND 0xff)] :: u8 list;
         ret = i2c_master_send b (log m) buf;
         m1 = emit m [Bus_send buf]
     in if ret < 0
        then (Inl ret, emit m1 [Dev_err ''write reg error'' [ret, uint reg]])
        else
          (let (ret2, buf0, buf1) = i2c_master_recv b (log m1) 2;
               m2 = emit m1 [Bus_recv 2]
           in if ret2 < 0
              then (Inl ret2, emit m2 [Dev_err ''read reg error'' [ret2, uint reg]])
              else (Inr (push_bit 8 (ucast buf0 :: u16) OR ucast (buf1 AND 0xff)), m2)))"

subsection \<open>Register program runner\<close>

text \<open>
  \<open>ar0144_set_register_array\<close>: the \<open>for\<close> loop over the table. Every caller passes
  \<open>ARRAY_SIZE\<close> of the table as \<open>num_settings\<close>, so the table is a list and the loop is
  recursion on it.
\<close>

fun ar0144_set_register_array :: "bus \<Rightarrow> machine \<Rightarrow> ar0144_reg_value list \<Rightarrow> int \<times> machine" where
  "ar0144_set_register_array b m [] = (0, m)"
| "ar0144_set_register_array b m (s # settings) =
    (let (ret, m1) = ar0144_write_reg b m (fst s) (snd s)
     in if ret < 0 then (ret, m1) else ar0144_set_register_array b m1 settings)"

subsection \<open>Power and reset\<close>

definition ar0144_s_power :: "linux_hdr \<Rightarrow> bus \<Rightarrow> machine \<Rightarrow> int \<Rightarrow> int \<times> machine" where
  "ar0144_s_power K b m on =
    (let m1 = emit m [Mutex_lock, Gpiod_direction_output 1]
     in if on = 0 then (0, emit m1 [Mutex_unlock])
        else
          (let m2 = emit m1 [Msleep 2, Gpiod_set_value_cansleep 0, Msleep 10];
               (r, m3) = ar0144_read_reg b m2 AR0144_ID_REG
           in case r of
                Inl ret \<Rightarrow> (ret, emit m3 [Mutex_unlock])
              | Inr reg_val \<Rightarrow>
                  if reg_val \<noteq> AR0144_ID_VAL
                  then (- ENODEV K,
                        emit m3 [Dev_err ''wrong chip id'' [uint reg_val, uint AR0144_ID_VAL],
                                 Mutex_unlock])
                  else
                    (let (ret, m4) = ar0144_set_register_array b m3
                                       ar0144at_rev4_recommended_setting
                     in (ret, emit m4 [Mutex_unlock]))))"

subsection \<open>Format enumeration\<close>

definition ar0144_enum_mbus_code ::
    "linux_hdr \<Rightarrow> v4l2_subdev_pad_config option \<Rightarrow> v4l2_subdev_mbus_code_enum
      \<Rightarrow> int \<times> v4l2_subdev_mbus_code_enum" where
  "ar0144_enum_mbus_code K cfg e =
    (if mce_index e > 0 then (- EINVAL K, e)
     else (0, e\<lparr>mce_code := MEDIA_BUS_FMT_SRGGB12_1X12 K\<rparr>))"

definition ar0144_enum_frame_size ::
    "linux_hdr \<Rightarrow> v4l2_subdev_pad_config option \<Rightarrow> v4l2_subdev_frame_size_enum
      \<Rightarrow> int \<times> v4l2_subdev_frame_size_enum" where
  "ar0144_enum_frame_size K cfg fse =
    (if fse_code fse \<noteq> MEDIA_BUS_FMT_SRGGB12_1X12 K then (- EINVAL K, fse)
     else if fse_index fse \<ge> 1 then (- EINVAL K, fse)
     else (0, fse\<lparr>fse_min_width := 1280, fse_max_width := 1280,
                    fse_min_height := 800, fse_max_height := 800\<rparr>))"

subsection \<open>Format and selection\<close>

text \<open>\<open>__ar0144_get_pad_format\<close> (an Isabelle name cannot start with an underscore).\<close>

definition uu_ar0144_get_pad_format ::
    "linux_hdr \<Rightarrow> v4l2_subdev_pad_config option \<Rightarrow> u32 \<Rightarrow> u32 \<Rightarrow> fmt_object ptr" where
  "uu_ar0144_get_pad_format K cfg pd whence =
    (if whence = V4L2_SUBDEV_FORMAT_TRY K \<or> whence = V4L2_SUBDEV_FORMAT_ACTIVE K
     then Ptr Ar0144_fmt else NULL)"

definition ar0144_get_format ::
    "linux_hdr \<Rightarrow> machine \<Rightarrow> v4l2_subdev_pad_config option \<Rightarrow> v4l2_subdev_format
      \<Rightarrow> fault + (int \<times> machine \<times> v4l2_subdev_format)" where
  "ar0144_get_format K m cfg fm =
    (let m0 = emit m [Mutex_lock]
     in case uu_ar0144_get_pad_format K cfg (pad fm) (which fm) of
          NULL \<Rightarrow> Inl Null_pointer_dereference
        | Ptr p \<Rightarrow> Inr (0, emit m0 [Mutex_unlock], fm\<lparr>format := load_fmt m0 p\<rparr>))"

text \<open>\<open>__ar0144_get_pad_crop\<close>.\<close>

definition uu_ar0144_get_pad_crop ::
    "linux_hdr \<Rightarrow> v4l2_subdev_pad_config option \<Rightarrow> u32 \<Rightarrow> u32 \<Rightarrow> rect_object ptr" where
  "uu_ar0144_get_pad_crop K cfg pd whence =
    (if whence = V4L2_SUBDEV_FORMAT_TRY K \<or> whence = V4L2_SUBDEV_FORMAT_ACTIVE K
     then Ptr Ar0144_crop else NULL)"

definition ar0144_set_format ::
    "linux_hdr \<Rightarrow> machine \<Rightarrow> v4l2_subdev_pad_config option \<Rightarrow> v4l2_subdev_format
      \<Rightarrow> fault + (int \<times> machine \<times> v4l2_subdev_format)" where
  "ar0144_set_format K m cfg fm =
    (let m0 = emit m [Mutex_lock]
     in case uu_ar0144_get_pad_format K cfg (pad fm) (which fm) of
          NULL \<Rightarrow> Inl Null_pointer_dereference
        | Ptr p \<Rightarrow>
            (let f = (load_fmt m0 p)
                       \<lparr>width := 1280, height := 800,
                        code := MEDIA_BUS_FMT_SRGGB12_1X12 K,
                        field := V4L2_FIELD_NONE K,
                        colorspace := V4L2_COLORSPACE_SRGB K\<rparr>;
                 m1 = store_fmt m0 p f
             in Inr (0, emit m1 [Mutex_unlock], fm\<lparr>format := load_fmt m1 p\<rparr>)))"

definition zero_framefmt :: v4l2_mbus_framefmt where
  "zero_framefmt = \<lparr>width = 0, height = 0, code = 0, field = 0, colorspace = 0\<rparr>"

definition zero_rect :: v4l2_rect where
  "zero_rect = \<lparr>rect_left = 0, rect_top = 0, rect_width = 0, rect_height = 0\<rparr>"

definition ar0144_entity_init_cfg ::
    "linux_hdr \<Rightarrow> machine \<Rightarrow> v4l2_subdev_pad_config option \<Rightarrow> fault + (int \<times> machine)" where
  "ar0144_entity_init_cfg K m cfg =
    (let fm = \<lparr>which = 0, pad = 0, format = zero_framefmt\<rparr>;
         fm1 = fm\<lparr>which := (if cfg \<noteq> None then V4L2_SUBDEV_FORMAT_TRY K
                              else V4L2_SUBDEV_FORMAT_ACTIVE K)\<rparr>
     in case ar0144_set_format K m cfg fm1 of
          Inl flt \<Rightarrow> Inl flt
        | Inr (ret, m1, fm2) \<Rightarrow> Inr (0, m1))"

definition ar0144_get_selection ::
    "linux_hdr \<Rightarrow> machine \<Rightarrow> v4l2_subdev_pad_config option \<Rightarrow> v4l2_subdev_selection
      \<Rightarrow> fault + (int \<times> machine \<times> v4l2_subdev_selection)" where
  "ar0144_get_selection K m cfg sel =
    (if sel_target sel \<noteq> V4L2_SEL_TGT_CROP K then Inr (- EINVAL K, m, sel)
     else case uu_ar0144_get_pad_crop K cfg (sel_pad sel) (sel_which sel) of
            NULL \<Rightarrow> Inl Null_pointer_dereference
          | Ptr p \<Rightarrow> Inr (0, m, sel\<lparr>sel_r := load_rect m p\<rparr>))"

subsection \<open>Streaming\<close>

definition ar0144_s_stream :: "bus \<Rightarrow> machine \<Rightarrow> int \<Rightarrow> int \<times> machine" where
  "ar0144_s_stream b m enable =
    (let m0 = emit m [Mutex_lock]
     in if enable = 0
        then (let (ret, m1) = ar0144_set_register_array b m0 ar0144at_stop_stream
              in (ret, emit m1 [Mutex_unlock]))
        else
          (let (ret1, m1) = ar0144_set_register_array b m0 ar0144at_pll_27mhz
           in if ret1 < 0 then (ret1, emit m1 [Mutex_unlock])
              else
          (let m1s = emit m1 [Msleep 100];
               (ret2, m2) = ar0144_set_register_array b m1s ar0144at_mipi_2lane_12bit
           in if ret2 < 0 then (ret2, emit m2 [Mutex_unlock])
              else
          (let (ret3, m3) = ar0144_set_register_array b m2 ar0144at_1280x800_60fps
           in if ret3 < 0 then (ret3, emit m3 [Mutex_unlock])
              else
          (let (ret4, m4) = ar0144_set_register_array b m3 ar0144at_context_b_2x2_binning
           in if ret4 < 0 then (ret4, emit m4 [Mutex_unlock])
              else
          (let (ret5, m5) = ar0144_set_register_array b m4 ar0144at_embedded_data_stats
           in if ret5 < 0 then (ret5, emit m5 [Mutex_unlock])
              else
          (let (ret6, m6) = ar0144_set_register_array b m5 ar0144at_start_stream
           in (ret6, emit m6 [Mutex_unlock]))))))))"

subsection \<open>Probe\<close>

text \<open>
  What the platform answers to the calls \<open>ar0144_probe\<close> makes besides the bus: whether
  the allocation and the endpoint lookup succeed, the return code of the endpoint parser
  and the bus type it stores, the reset GPIO lookup (\<open>None\<close> for a valid descriptor,
  \<open>Some e\<close> for the error pointer of code \<open>e\<close>), the return codes of the media entity
  initialisation and of the subdevice registration, and the client's bus address.
\<close>

record platform =
  devm_kzalloc_ok :: bool
  of_graph_get_next_endpoint_ok :: bool
  v4l2_fwnode_endpoint_parse :: "int \<times> u32"
  devm_gpiod_get :: "int option"
  media_entity_pads_init :: int
  v4l2_async_register_subdev :: int
  client_addr :: u16

text \<open>\<open>devm_kzalloc\<close> hands out zeroed memory.\<close>

definition kzalloc_ar0144 :: ar0144 where
  "kzalloc_ar0144 =
    \<lparr>ep_bus_type = 0, fmt = zero_framefmt, crop = zero_rect, streaming = False\<rparr>"

definition ar0144_probe ::
    "linux_hdr \<Rightarrow> bus \<Rightarrow> platform \<Rightarrow> event list \<Rightarrow> fault + (int \<times> machine option)" where
  "ar0144_probe K b P t0 =
    (if \<not> devm_kzalloc_ok P then Inr (- ENOMEM K, None)
     else
       (let m = \<lparr>dev = kzalloc_ar0144, log = t0\<rparr>
        in if \<not> of_graph_get_next_endpoint_ok P
           then Inr (- EINVAL K, Some (emit m [Dev_err ''endpoint node not found'' []]))
           else
       (let (ret, bt) = v4l2_fwnode_endpoint_parse P;
            m1 = m\<lparr>dev := (dev m)\<lparr>ep_bus_type := bt\<rparr>\<rparr>
        in if ret < 0
           then Inr (ret, Some (emit m1 [Dev_err ''parsing endpoint node failed'' []]))
           else
       (let m2 = emit m1 [Kernel_call ''of_node_put'']
        in if ep_bus_type (dev m2) \<noteq> V4L2_MBUS_CSI2 K
           then Inr (- EINVAL K,
                     Some (emit m2 [Dev_err ''invalid bus type, must be parallel'' []]))
           else
             (case devm_gpiod_get P of
                Some e \<Rightarrow>
                  Inr (e, Some (if e \<noteq> - EPROBE_DEFER K
                                then emit m2 [Dev_err ''cannot get reset gpio'' []]
                                else m2))
              | None \<Rightarrow>
       (let m3 = emit m2 [Kernel_call ''v4l2_i2c_subdev_init'',
                          Kernel_call ''media_entity_pads_init''];
            ret1 = media_entity_pads_init P
        in if ret1 < 0
           then Inr (ret1, Some (emit m3 [Dev_err ''could not register media entity'' []]))
           else
       (let (ret2, m4) = ar0144_s_power K b m3 1
        in if ret2 < 0
           then Inr (ret2, Some (emit m4 [Dev_err ''could not power up AR0144'' [],
                                          Kernel_call ''media_entity_cleanup'']))
           else
       (let m5 = emit m4 [Dev_info ''AR0144 detected at address'' [uint (client_addr P)],
                          Kernel_call ''v4l2_async_register_subdev''];
            ret3 = v4l2_async_register_subdev P
        in if ret3 < 0
           then Inr (ret3, Some (emit m5 [Dev_err ''could not register v4l2 device'' [],
                                          Kernel_call ''media_entity_cleanup'']))
           else
             (case ar0144_entity_init_cfg K m5 None of
                Inl flt \<Rightarrow> Inl flt
              | Inr (ret4, m6) \<Rightarrow> Inr (0, Some m6))))))))))"

subsection \<open>Notions used in the statements\<close>

text \<open>
  The bytes of a 16-bit quantity, the frame of a register write and the big-endian
  composition of two received bytes, all by arithmetic on the unsigned values.
\<close>

definition hi_byte :: "u16 \<Rightarrow> u8" where
  "hi_byte x = of_nat (unat x div 256)"

definition lo_byte :: "u16 \<Rightarrow> u8" where
  "lo_byte x = of_nat (unat x mod 256)"

definition write_frame :: "u16 \<Rightarrow> u16 \<Rightarrow> u8 list" where
  "write_frame reg val = [hi_byte reg, lo_byte reg, hi_byte val, lo_byte val]"

definition big_endian16 :: "u8 \<Rightarrow> u8 \<Rightarrow> u16" where
  "big_endian16 b0 b1 = of_nat (unat b0 * 256 + unat b1)"

text \<open>The bus sends of a register program whose writes are all attempted, in order.\<close>

definition program_writes :: "ar0144_reg_value list \<Rightarrow> event list" where
  "program_writes prog = map (\<lambda>s. Bus_send (write_frame (fst s) (snd s))) prog"

text \<open>
  What the bus returns to the send of entry \<open>j\<close> of a program that is applied from
  machine \<open>m\<close>, when the entries before it have been sent without a failure.
\<close>

definition send_ret :: "bus \<Rightarrow> machine \<Rightarrow> ar0144_reg_value list \<Rightarrow> nat \<Rightarrow> int" where
  "send_ret b m prog j =
    i2c_master_send b (log m @ program_writes (take j prog))
      (write_frame (fst (prog ! j)) (snd (prog ! j)))"

text \<open>The error line \<open>ar0144_write_reg\<close> logs for a failed write.\<close>

definition write_error :: "int \<Rightarrow> ar0144_reg_value \<Rightarrow> event" where
  "write_error ret s = Dev_err ''write reg error'' [ret, uint (fst s), uint (snd s)]"

text \<open>The events a call added to the log, and the bus transactions among some events.\<close>

definition new_events :: "machine \<Rightarrow> machine \<Rightarrow> event list" where
  "new_events m m1 = drop (length (log m)) (log m1)"

fun is_bus_event :: "event \<Rightarrow> bool" where
  "is_bus_event (Bus_send bs) = True"
| "is_bus_event (Bus_recv n) = True"
| "is_bus_event e = False"

definition bus_events :: "event list \<Rightarrow> event list" where
  "bus_events es = filter is_bus_event es"

fun is_bus_send :: "event \<Rightarrow> bool" where
  "is_bus_send (Bus_send bs) = True"
| "is_bus_send e = False"

definition sends_so_far :: "event list \<Rightarrow> nat" where
  "sends_so_far es = length (filter is_bus_send es)"

subsection \<open>Concrete buses, platforms and machines\<close>

text \<open>
  One choice of values for the header constants, for the statements that are evaluated on
  concrete inputs.
\<close>

definition example_hdr :: linux_hdr where
  "example_hdr =
    \<lparr>ENOMEM = 12, EINVAL = 22, ENODEV = 19, EPROBE_DEFER = 517,
     MEDIA_BUS_FMT_SRGGB12_1X12 = 0x3012, V4L2_FIELD_NONE = 1,
     V4L2_COLORSPACE_SRGB = 8, V4L2_SUBDEV_FORMAT_TRY = 0,
     V4L2_SUBDEV_FORMAT_ACTIVE = 1, V4L2_SEL_TGT_CROP = 0, V4L2_MBUS_CSI2 = 4\<rparr>"

text \<open>
  A bus on which every transfer succeeds: a send returns the number of bytes sent, a
  receive returns the number of bytes asked for and delivers the two given bytes.
\<close>

definition answering_bus :: "u8 \<Rightarrow> u8 \<Rightarrow> bus" where
  "answering_bus b0 b1 =
    \<lparr>i2c_master_send = (\<lambda>h bs. int (length bs)),
     i2c_master_recv = (\<lambda>h n. (int n, b0, b1))\<rparr>"

text \<open>The bus of a present AR0144: it answers the identity read with 0x1356.\<close>

definition ok_bus :: bus where
  "ok_bus = answering_bus 0x13 0x56"

text \<open>The bus of some other chip: it answers the identity read with 0x2402.\<close>

definition wrong_id_bus :: bus where
  "wrong_id_bus = answering_bus 0x24 0x02"

text \<open>
  A bus whose send number \<open>n\<close> (counting from 0 over the whole log) is not acknowledged
  and returns -5; every other transfer succeeds.
\<close>

definition nack_at :: "nat \<Rightarrow> bus" where
  "nack_at n =
    \<lparr>i2c_master_send = (\<lambda>h bs. if sends_so_far h = n then - 5 else int (length bs)),
     i2c_master_recv = (\<lambda>h k. (int k, 0x13, 0x56))\<rparr>"

text \<open>A platform on which every call of probe succeeds.\<close>

definition ok_platform :: platform where
  "ok_platform =
    \<lparr>devm_kzalloc_ok = True, of_graph_get_next_endpoint_ok = True,
     v4l2_fwnode_endpoint_parse = (0, 4), devm_gpiod_get = None,
     media_entity_pads_init = 0, v4l2_async_register_subdev = 0,
     client_addr = AR0144_I2C_ADDR\<rparr>"

text \<open>The zeroed device structure with an empty log.\<close>

definition fresh :: machine where
  "fresh = \<lparr>dev = kzalloc_ar0144, log = []\<rparr>"

text \<open>A program of four entries that writes the same register twice.\<close>

definition four_entries :: "ar0144_reg_value list" where
  "four_entries = [(0x3040, 0x1000), (0x3040, 0x1000), (0x30A8, 0x0003), (0x30AE, 0x0003)]"

text \<open>The one format the driver stores, and the rectangle of the full 1280 by 800 array.\<close>

definition fixed_format :: "linux_hdr \<Rightarrow> v4l2_mbus_framefmt" where
  "fixed_format K =
    \<lparr>width = 1280, height = 800, code = MEDIA_BUS_FMT_SRGGB12_1X12 K,
     field = V4L2_FIELD_NONE K, colorspace = V4L2_COLORSPACE_SRGB K\<rparr>"

definition full_sensor_array :: v4l2_rect where
  "full_sensor_array = \<lparr>rect_left = 0, rect_top = 0, rect_width = 1280, rect_height = 800\<rparr>"

text \<open>The machine a successful probe leaves behind.\<close>

definition probed :: machine where
  "probed =
    (case ar0144_probe example_hdr ok_bus ok_platform [] of
       Inr (ret, Some m) \<Rightarrow> m
     | _ \<Rightarrow> fresh)"

text \<open>
  Requests of a caller: a 640 by 480 format on the active and on the trial side, and a
  query for the active crop rectangle.
\<close>

definition vga_request :: "u32 \<Rightarrow> v4l2_subdev_format" where
  "vga_request whence =
    \<lparr>which = whence, pad = 0,
     format = \<lparr>width = 640, height = 480, code = 0x2008, field = 0, colorspace = 0\<rparr>\<rparr>"

definition crop_query :: v4l2_subdev_selection where
  "crop_query =
    \<lparr>sel_which = V4L2_SUBDEV_FORMAT_ACTIVE example_hdr, sel_pad = 0,
     sel_target = V4L2_SEL_TGT_CROP example_hdr, sel_flags = 0, sel_r = full_sensor_array\<rparr>"

text \<open>The return code of a format or selection call, or the fault it ran into.\<close>

definition outcome :: "fault + (int \<times> 'a) \<Rightarrow> fault + int" where
  "outcome res = map_sum id fst res"

text \<open>The machine with another device structure and the same log.\<close>

definition with_dev :: "ar0144 \<Rightarrow> machine \<Rightarrow> machine" where
  "with_dev d m = m\<lparr>dev := d\<rparr>"

text \<open>
  What \<open>ar0144_s_power\<close> does before its first bus transaction when asked to power up,
  and the first bus transaction: the send of the address of the identity register.
\<close>

definition power_up_prologue :: "event list" where
  "power_up_prologue =
    [Mutex_lock, Gpiod_direction_output 1, Msleep 2, Gpiod_set_value_cansleep 0, Msleep 10]"

definition id_read_send :: event where
  "id_read_send = Bus_send [hi_byte AR0144_ID_REG, lo_byte AR0144_ID_REG]"

text \<open>The machine after a \<open>ar0144_set_format\<close> call that found its storage.\<close>

definition after_set_format :: "linux_hdr \<Rightarrow> machine \<Rightarrow> machine" where
  "after_set_format K m =
    emit (m\<lparr>dev := (dev m)\<lparr>fmt := fixed_format K\<rparr>\<rparr>) [Mutex_lock, Mutex_unlock]"

text \<open>A device structure whose \<open>streaming\<close> member is set, and an empty trial storage.\<close>

definition streaming_ar0144 :: ar0144 where
  "streaming_ar0144 = kzalloc_ar0144\<lparr>streaming := True\<rparr>"

definition zero_cfg :: v4l2_subdev_pad_config where
  "zero_cfg = \<lparr>try_fmt = zero_framefmt, try_crop = zero_rect\<rparr>"

text \<open>
  The level last driven on the reset line according to a log: 1 is reset asserted, as
  \<open>ar0144_s_power\<close> leaves it when asked to power down, 0 is reset released.
\<close>

fun gpio_level :: "event \<Rightarrow> int option" where
  "gpio_level (Gpiod_direction_output v) = Some v"
| "gpio_level (Gpiod_set_value_cansleep v) = Some v"
| "gpio_level e = None"

definition reset_line :: "event list \<Rightarrow> int option" where
  "reset_line es = fold (\<lambda>e l. case gpio_level e of None \<Rightarrow> l | Some v \<Rightarrow> Some v) es None"

section \<open>Properties\<close>

subsection \<open>Bytes and log bookkeeping\<close>

lemma hi_byte_code: "(ucast (drop_bit 8 (x :: 16 word)) :: 8 word) = hi_byte x"
proof -
  have "(ucast (drop_bit 8 x) :: 8 word) = of_nat (unat (drop_bit 8 x))"
    by (simp only: of_nat_unat)
  also have "unat (drop_bit 8 x) = unat x div 256"
    by (simp add: drop_bit_eq_div unat_div)
  finally show ?thesis by (simp only: hi_byte_def)
qed

lemma lo_byte_code: "(ucast ((x :: 16 word) AND 0xff) :: 8 word) = lo_byte x"
proof -
  have m: "(0xff :: 16 word) = mask 8"
    by (simp add: mask_eq_exp_minus_1)
  have "(ucast (x AND 0xff) :: 8 word) = of_nat (unat (x AND mask 8))"
    by (simp only: of_nat_unat m)
  also have "x AND mask 8 = x mod 256"
    by (simp only: take_bit_eq_mask [symmetric] take_bit_eq_mod) simp
  also have "unat (x mod 256) = unat x mod 256"
    by (simp add: unat_mod)
  finally show ?thesis by (simp only: lo_byte_def)
qed

lemma and_ff: "(b :: 8 word) AND 0xff = b"
proof -
  have "(0xff :: 8 word) = - 1" by simp
  then show ?thesis by (simp only: and.right_neutral)
qed

lemma big_endian16_code:
  "push_bit 8 (ucast (b0 :: 8 word) :: 16 word) OR ucast ((b1 :: 8 word) AND 0xff) = big_endian16 b0 b1"
proof -
  have disj: "\<not> bit (push_bit 8 (ucast b0 :: 16 word)) n \<or> \<not> bit (ucast b1 :: 16 word) n" for n
  proof (cases "n < 8")
    case True
    then show ?thesis by (simp add: bit_push_bit_iff)
  next
    case False
    then have "\<not> bit b1 n" using bit_imp_le_length [where w = b1 and n = n] by auto
    then show ?thesis by (simp add: bit_ucast_iff)
  qed
  have "push_bit 8 (ucast b0 :: 16 word) OR ucast b1 = push_bit 8 (ucast b0) + ucast b1"
    by (rule disjunctive_add [symmetric]) (rule disj)
  also have "\<dots> = of_nat (unat b0) * 256 + of_nat (unat b1)"
    by (simp add: push_bit_eq_mult)
  also have "\<dots> = of_nat (unat b0 * 256 + unat b1)"
    by simp
  finally show ?thesis by (simp only: and_ff big_endian16_def)
qed

lemma emit_emit: "emit (emit m es) fs = emit m (es @ fs)"
  by (simp add: emit_def)

lemma emit_Nil: "emit m [] = m"
  by (simp add: emit_def)

lemma log_emit: "log (emit m es) = log m @ es"
  by (simp add: emit_def)

lemma dev_emit: "dev (emit m es) = dev m"
  by (simp add: emit_def)

subsection \<open>Register writes and the program runner\<close>

lemma write_reg_eq:
  "ar0144_write_reg b m reg val =
    (i2c_master_send b (log m) (write_frame reg val),
     emit m (Bus_send (write_frame reg val) #
       (if i2c_master_send b (log m) (write_frame reg val) < 0
        then [write_error (i2c_master_send b (log m) (write_frame reg val)) (reg, val)]
        else [])))"
  by (simp add: ar0144_write_reg_def Let_def hi_byte_code lo_byte_code write_frame_def
      write_error_def emit_emit)

lemma send_ret_0: "send_ret b m (s # prog) 0 = i2c_master_send b (log m) (write_frame (fst s) (snd s))"
  by (simp add: send_ret_def program_writes_def)

lemma send_ret_Suc:
  "send_ret b m (s # prog) (Suc j) =
    send_ret b (emit m [Bus_send (write_frame (fst s) (snd s))]) prog j"
  by (simp add: send_ret_def program_writes_def log_emit)

lemma set_register_array_fails:
  "k < length prog \<Longrightarrow> \<forall>j<k. 0 \<le> send_ret b m prog j \<Longrightarrow> send_ret b m prog k < 0 \<Longrightarrow>
    ar0144_set_register_array b m prog =
      (send_ret b m prog k,
       emit m (program_writes (take (Suc k) prog) @ [write_error (send_ret b m prog k) (prog ! k)]))"
proof (induction prog arbitrary: m k)
  case Nil
  then show ?case by simp
next
  case (Cons s prog)
  show ?case
  proof (cases k)
    case 0
    with Cons.prems show ?thesis
      by (simp add: write_reg_eq send_ret_0 program_writes_def)
  next
    case (Suc k')
    let ?m1 = "emit m [Bus_send (write_frame (fst s) (snd s))]"
    from Cons.prems Suc have ok0: "0 \<le> send_ret b m (s # prog) 0" by blast
    from Cons.prems Suc have len: "k' < length prog" by simp
    from Cons.prems Suc have oks: "\<forall>j<k'. 0 \<le> send_ret b ?m1 prog j"
      by (auto simp add: send_ret_Suc [symmetric])
    from Cons.prems Suc have bad: "send_ret b ?m1 prog k' < 0"
      by (simp add: send_ret_Suc)
    from ok0 have step: "ar0144_set_register_array b m (s # prog) = ar0144_set_register_array b ?m1 prog"
      by (simp add: write_reg_eq send_ret_0)
    show ?thesis
      unfolding step Cons.IH [OF len oks bad]
      by (simp add: Suc send_ret_Suc emit_emit program_writes_def)
  qed
qed

lemma set_register_array_succeeds:
  "\<forall>j<length prog. 0 \<le> send_ret b m prog j \<Longrightarrow>
    ar0144_set_register_array b m prog = (0, emit m (program_writes prog))"
proof (induction prog arbitrary: m)
  case Nil
  then show ?case by (simp add: program_writes_def emit_Nil)
next
  case (Cons s prog)
  let ?m1 = "emit m [Bus_send (write_frame (fst s) (snd s))]"
  from Cons.prems have ok0: "0 \<le> send_ret b m (s # prog) 0" by blast
  from Cons.prems have oks: "\<forall>j<length prog. 0 \<le> send_ret b ?m1 prog j"
    by (auto simp add: send_ret_Suc [symmetric])
  from ok0 have step: "ar0144_set_register_array b m (s # prog) = ar0144_set_register_array b ?m1 prog"
    by (simp add: write_reg_eq send_ret_0)
  show ?case
    unfolding step Cons.IH [OF oks]
    by (simp add: emit_emit program_writes_def)
qed

lemma set_register_array_all_ok:
  assumes "\<forall>h bs. 0 \<le> i2c_master_send b h bs"
  shows "ar0144_set_register_array b m prog = (0, emit m (program_writes prog))"
  by (rule set_register_array_succeeds) (simp add: send_ret_def assms)

subsection \<open>Register reads\<close>

lemma new_events_emit: "new_events m (emit m es) = es"
  by (simp add: new_events_def emit_def)

lemma read_reg_send:
  "\<exists>rest. new_events m (snd (ar0144_read_reg b m reg)) =
     Bus_send [hi_byte reg, lo_byte reg] # rest"
  by (simp add: ar0144_read_reg_def Let_def hi_byte_code lo_byte_code emit_emit
      new_events_emit split: prod.splits)

lemma read_reg_ok:
  assumes "0 \<le> i2c_master_send b (log m) [hi_byte reg, lo_byte reg]"
    and "i2c_master_recv b (log m @ [Bus_send [hi_byte reg, lo_byte reg]]) 2 = (r, b0, b1)"
    and "0 \<le> r"
  shows "ar0144_read_reg b m reg =
    (Inr (big_endian16 b0 b1), emit m [Bus_send [hi_byte reg, lo_byte reg], Bus_recv 2])"
  using assms
  by (simp add: ar0144_read_reg_def Let_def hi_byte_code lo_byte_code emit_emit log_emit
      big_endian16_code)

lemma unat_big_endian16: "unat (big_endian16 b0 b1) = unat b0 * 256 + unat b1"
proof -
  have "unat b0 < 256" and "unat b1 < 256"
    using unsigned_less [of b0, where ?'a = nat] unsigned_less [of b1, where ?'a = nat]
    by simp_all
  then have "unat b0 * 256 + unat b1 < 2 ^ LENGTH(16)"
    by simp
  then have "unat (of_nat (unat b0 * 256 + unat b1) :: 16 word) = unat b0 * 256 + unat b1"
    by (simp only: unat_of_nat take_bit_eq_mod mod_less)
  then show ?thesis
    by (simp only: big_endian16_def)
qed

lemma hi_byte_big_endian16: "hi_byte (big_endian16 b0 b1) = b0"
proof -
  have "unat b1 < 256"
    using unsigned_less [of b1, where ?'a = nat] by simp
  then show ?thesis
    by (simp add: hi_byte_def unat_big_endian16)
qed

lemma lo_byte_big_endian16: "lo_byte (big_endian16 b0 b1) = b1"
proof -
  have "unat b1 < 256"
    using unsigned_less [of b1, where ?'a = nat] by simp
  then show ?thesis
    by (simp add: lo_byte_def unat_big_endian16)
qed

subsection \<open>Return codes and the device structure\<close>

lemma set_register_array_nonpos: "fst (ar0144_set_register_array b m prog) \<le> 0"
  by (induction prog arbitrary: m) (simp_all add: write_reg_eq Let_def)

lemma set_register_array_nonposD: "ar0144_set_register_array b m prog = (ret, m1) \<Longrightarrow> ret \<le> 0"
  using set_register_array_nonpos [of b m prog] by simp

lemma s_stream_nonpos: "fst (ar0144_s_stream b m enable) \<le> 0"
  by (auto simp add: ar0144_s_stream_def Let_def split: prod.splits
      dest: set_register_array_nonposD)

lemma emit_with_dev: "emit (with_dev d m) es = with_dev d (emit m es)"
  by (simp add: emit_def with_dev_def)

lemma log_with_dev: "log (with_dev d m) = log m"
  by (simp add: with_dev_def)

lemma set_register_array_with_dev:
  "ar0144_set_register_array b (with_dev d m) prog =
    (fst (ar0144_set_register_array b m prog),
     with_dev d (snd (ar0144_set_register_array b m prog)))"
proof (induction prog arbitrary: m)
  case Nil
  show ?case by simp
next
  case (Cons s prog)
  show ?case
    by (simp add: write_reg_eq log_with_dev emit_with_dev Cons.IH)
qed

lemma read_reg_with_dev:
  "ar0144_read_reg b (with_dev d m) reg =
    (fst (ar0144_read_reg b m reg), with_dev d (snd (ar0144_read_reg b m reg)))"
  by (simp add: ar0144_read_reg_def Let_def log_with_dev emit_with_dev log_emit
      case_prod_beta)

lemma s_stream_with_dev:
  "ar0144_s_stream b (with_dev d m) enable =
    (fst (ar0144_s_stream b m enable), with_dev d (snd (ar0144_s_stream b m enable)))"
  by (simp add: ar0144_s_stream_def Let_def emit_with_dev set_register_array_with_dev
      case_prod_beta)

lemma s_power_with_dev:
  "ar0144_s_power K b (with_dev d m) on =
    (fst (ar0144_s_power K b m on), with_dev d (snd (ar0144_s_power K b m on)))"
  by (simp add: ar0144_s_power_def Let_def emit_with_dev set_register_array_with_dev
      read_reg_with_dev case_prod_beta split: sum.splits)

lemma set_register_array_dev: "dev (snd (ar0144_set_register_array b m prog)) = dev m"
  by (induction prog arbitrary: m) (simp_all add: write_reg_eq Let_def dev_emit)

lemma read_reg_dev: "dev (snd (ar0144_read_reg b m reg)) = dev m"
  by (simp add: ar0144_read_reg_def Let_def dev_emit split: prod.splits)

lemma set_register_array_devD: "ar0144_set_register_array b m prog = (ret, m1) \<Longrightarrow> dev m1 = dev m"
  using set_register_array_dev [of b m prog] by simp

lemma read_reg_devD: "ar0144_read_reg b m reg = (r, m1) \<Longrightarrow> dev m1 = dev m"
  using read_reg_dev [of b m reg] by simp

lemma s_stream_dev: "dev (snd (ar0144_s_stream b m enable)) = dev m"
  by (auto simp add: ar0144_s_stream_def Let_def dev_emit split: prod.splits
      dest!: set_register_array_devD)

lemma s_power_dev: "dev (snd (ar0144_s_power K b m on)) = dev m"
  by (auto simp add: ar0144_s_power_def Let_def dev_emit split: prod.splits sum.splits
      dest!: set_register_array_devD read_reg_devD)


subsection \<open>Starting and stopping on a bus that always answers\<close>

lemma sends_so_far_append: "sends_so_far (es @ fs) = sends_so_far es + sends_so_far fs"
  by (simp add: sends_so_far_def)

lemma sends_so_far_Nil: "sends_so_far [] = 0"
  by (simp add: sends_so_far_def)

lemma sends_so_far_Cons:
  "sends_so_far (e # es) = (if is_bus_send e then 1 else 0) + sends_so_far es"
  by (simp add: sends_so_far_def)

lemma sends_so_far_program_writes: "sends_so_far (program_writes prog) = length prog"
  by (induction prog) (simp_all add: sends_so_far_def program_writes_def)

lemma s_stream_all_ok:
  assumes "\<forall>h bs. 0 \<le> i2c_master_send b h bs" and "enable \<noteq> 0"
  shows "ar0144_s_stream b m enable =
    (0, emit m ([Mutex_lock] @ program_writes ar0144at_pll_27mhz @ [Msleep 100] @
                program_writes ar0144at_mipi_2lane_12bit @
                program_writes ar0144at_1280x800_60fps @
                program_writes ar0144at_context_b_2x2_binning @
                program_writes ar0144at_embedded_data_stats @
                program_writes ar0144at_start_stream @ [Mutex_unlock]))"
  using assms(2)
  by (simp add: ar0144_s_stream_def Let_def set_register_array_all_ok [OF assms(1)] emit_emit)

lemma s_stream_all_ok_sends:
  assumes "\<forall>h bs. 0 \<le> i2c_master_send b h bs" and "enable \<noteq> 0"
  shows "sends_so_far (log (snd (ar0144_s_stream b m enable))) = sends_so_far (log m) + 32"
  by (simp add: s_stream_all_ok [OF assms] log_emit sends_so_far_append sends_so_far_Cons
      sends_so_far_Nil sends_so_far_program_writes)
    (simp add: ar0144at_pll_27mhz_def ar0144at_mipi_2lane_12bit_def
      ar0144at_1280x800_60fps_def ar0144at_context_b_2x2_binning_def
      ar0144at_embedded_data_stats_def ar0144at_start_stream_def)

lemma ok_bus_sends: "\<forall>h bs. 0 \<le> i2c_master_send ok_bus h bs"
  by (simp add: ok_bus_def answering_bus_def)

subsection \<open>Power-up\<close>

lemma id_reg_bytes: "hi_byte AR0144_ID_REG = 0x30" "lo_byte AR0144_ID_REG = 0x00"
  by (simp_all add: hi_byte_def lo_byte_def AR0144_ID_REG_def)


lemma read_reg_emit_tl:
  "snd (ar0144_read_reg b m reg) =
    emit m (Bus_send [hi_byte reg, lo_byte reg] #
            tl (new_events m (snd (ar0144_read_reg b m reg))))"
  by (simp add: ar0144_read_reg_def Let_def hi_byte_code lo_byte_code emit_emit
      new_events_emit case_prod_beta)

lemma read_reg_emit:
  "\<exists>rest. snd (ar0144_read_reg b m reg) = emit m (Bus_send [hi_byte reg, lo_byte reg] # rest)"
  using read_reg_emit_tl [of b m reg] by blast

lemma set_register_array_emit: "\<exists>rest. snd (ar0144_set_register_array b m prog) = emit m rest"
proof (induction prog arbitrary: m)
  case Nil
  have "m = emit m []" by (simp add: emit_Nil)
  then show ?case by auto
next
  case (Cons s prog)
  let ?m1 = "emit m [Bus_send (write_frame (fst s) (snd s))]"
  from Cons.IH [of ?m1] obtain rest
    where "snd (ar0144_set_register_array b ?m1 prog) = emit ?m1 rest" by blast
  then show ?case
    by (auto simp add: write_reg_eq emit_emit)
qed

lemma s_power_emit:
  assumes "on \<noteq> 0"
  shows "\<exists>rest. snd (ar0144_s_power K b m on) = emit m (power_up_prologue @ id_read_send # rest)"
proof -
  let ?m2 = "emit m power_up_prologue"
  obtain rest where rest: "snd (ar0144_read_reg b ?m2 AR0144_ID_REG) =
      emit m (power_up_prologue @ id_read_send # rest)"
    using read_reg_emit [of b ?m2 AR0144_ID_REG] by (auto simp add: emit_emit id_read_send_def)
  let ?m3 = "emit m (power_up_prologue @ id_read_send # rest)"
  obtain rest2 where rest2:
    "snd (ar0144_set_register_array b ?m3 ar0144at_rev4_recommended_setting) = emit ?m3 rest2"
    using set_register_array_emit by blast
  show ?thesis
  proof (cases "fst (ar0144_read_reg b ?m2 AR0144_ID_REG)")
    case (Inl ret)
    with assms rest have "snd (ar0144_s_power K b m on) =
        emit m (power_up_prologue @ id_read_send # (rest @ [Mutex_unlock]))"
      by (simp add: ar0144_s_power_def Let_def power_up_prologue_def case_prod_beta emit_emit)
    then show ?thesis by blast
  next
    case (Inr reg_val)
    show ?thesis
    proof (cases "reg_val = AR0144_ID_VAL")
      case False
      with assms rest Inr have "snd (ar0144_s_power K b m on) =
          emit m (power_up_prologue @ id_read_send #
            (rest @ [Dev_err ''wrong chip id'' [uint reg_val, uint AR0144_ID_VAL],
                     Mutex_unlock]))"
        by (simp add: ar0144_s_power_def Let_def power_up_prologue_def case_prod_beta emit_emit)
      then show ?thesis by blast
    next
      case True
      with assms rest rest2 Inr have "snd (ar0144_s_power K b m on) =
          emit m (power_up_prologue @ id_read_send # (rest @ rest2 @ [Mutex_unlock]))"
        by (simp add: ar0144_s_power_def Let_def power_up_prologue_def case_prod_beta emit_emit)
      then show ?thesis by blast
    qed
  qed
qed

lemma s_power_mismatch:
  assumes "on \<noteq> 0"
    and "0 \<le> i2c_master_send b (log m @ power_up_prologue)
                [hi_byte AR0144_ID_REG, lo_byte AR0144_ID_REG]"
    and "i2c_master_recv b (log m @ power_up_prologue @ [id_read_send]) 2 = (r, b0, b1)"
    and "0 \<le> r"
    and "big_endian16 b0 b1 \<noteq> AR0144_ID_VAL"
  shows "ar0144_s_power K b m on =
    (- ENODEV K,
     emit m (power_up_prologue @
       [id_read_send, Bus_recv 2,
        Dev_err ''wrong chip id'' [uint (big_endian16 b0 b1), uint AR0144_ID_VAL],
        Mutex_unlock]))"
proof -
  let ?m2 = "emit m power_up_prologue"
  have "ar0144_read_reg b ?m2 AR0144_ID_REG =
      (Inr (big_endian16 b0 b1),
       emit ?m2 [Bus_send [hi_byte AR0144_ID_REG, lo_byte AR0144_ID_REG], Bus_recv 2])"
    using assms(2-4) by (intro read_reg_ok [where r = r]) (simp_all add: log_emit id_read_send_def)
  with assms(1,5) show ?thesis
    by (simp add: ar0144_s_power_def Let_def power_up_prologue_def emit_emit id_read_send_def)
qed

lemma s_power_all_ok:
  assumes "on \<noteq> 0"
    and "\<forall>h bs. 0 \<le> i2c_master_send b h bs"
    and "i2c_master_recv b (log m @ power_up_prologue @ [id_read_send]) 2 = (r, b0, b1)"
    and "0 \<le> r"
    and "big_endian16 b0 b1 = AR0144_ID_VAL"
  shows "ar0144_s_power K b m on =
    (0, emit m (power_up_prologue @ [id_read_send, Bus_recv 2] @
                program_writes ar0144at_rev4_recommended_setting @ [Mutex_unlock]))"
proof -
  let ?m2 = "emit m power_up_prologue"
  have "ar0144_read_reg b ?m2 AR0144_ID_REG =
      (Inr (big_endian16 b0 b1),
       emit ?m2 [Bus_send [hi_byte AR0144_ID_REG, lo_byte AR0144_ID_REG], Bus_recv 2])"
    using assms(2-4) by (intro read_reg_ok [where r = r]) (simp_all add: log_emit id_read_send_def)
  with assms(1,5) show ?thesis
    by (simp add: ar0144_s_power_def Let_def power_up_prologue_def emit_emit id_read_send_def
        set_register_array_all_ok [OF assms(2)])
qed

lemma s_power_off:
  "ar0144_s_power K b m 0 = (0, emit m [Mutex_lock, Gpiod_direction_output 1, Mutex_unlock])"
  by (simp add: ar0144_s_power_def emit_emit)

lemma s_stream_stop_all_ok:
  assumes "\<forall>h bs. 0 \<le> i2c_master_send b h bs"
  shows "ar0144_s_stream b m 0 =
    (0, emit m ([Mutex_lock] @ program_writes ar0144at_stop_stream @ [Mutex_unlock]))"
  by (simp add: ar0144_s_stream_def Let_def set_register_array_all_ok [OF assms] emit_emit)

subsection \<open>Format, selection and probe\<close>

lemma get_pad_format_valid:
  "whence = V4L2_SUBDEV_FORMAT_TRY K \<or> whence = V4L2_SUBDEV_FORMAT_ACTIVE K \<Longrightarrow>
    uu_ar0144_get_pad_format K cfg pd whence = Ptr Ar0144_fmt"
  by (simp add: uu_ar0144_get_pad_format_def)

lemma get_pad_crop_valid:
  "whence = V4L2_SUBDEV_FORMAT_TRY K \<or> whence = V4L2_SUBDEV_FORMAT_ACTIVE K \<Longrightarrow>
    uu_ar0144_get_pad_crop K cfg pd whence = Ptr Ar0144_crop"
  by (simp add: uu_ar0144_get_pad_crop_def)

lemma set_format_valid:
  assumes "which fm = V4L2_SUBDEV_FORMAT_TRY K \<or> which fm = V4L2_SUBDEV_FORMAT_ACTIVE K"
  shows "ar0144_set_format K m cfg fm =
    Inr (0, emit (m\<lparr>dev := (dev m)\<lparr>fmt := fixed_format K\<rparr>\<rparr>) [Mutex_lock, Mutex_unlock],
         fm\<lparr>format := fixed_format K\<rparr>)"
  by (simp add: ar0144_set_format_def Let_def get_pad_format_valid [OF assms] emit_def
      fixed_format_def)

lemma get_format_valid:
  assumes "which fm = V4L2_SUBDEV_FORMAT_TRY K \<or> which fm = V4L2_SUBDEV_FORMAT_ACTIVE K"
  shows "ar0144_get_format K m cfg fm =
    Inr (0, emit m [Mutex_lock, Mutex_unlock], fm\<lparr>format := fmt (dev m)\<rparr>)"
  by (simp add: ar0144_get_format_def Let_def get_pad_format_valid [OF assms] emit_def)

lemma get_selection_valid:
  assumes "sel_target sel = V4L2_SEL_TGT_CROP K"
    and "sel_which sel = V4L2_SUBDEV_FORMAT_TRY K \<or> sel_which sel = V4L2_SUBDEV_FORMAT_ACTIVE K"
  shows "ar0144_get_selection K m cfg sel = Inr (0, m, sel\<lparr>sel_r := crop (dev m)\<rparr>)"
  by (simp add: ar0144_get_selection_def assms(1) get_pad_crop_valid [OF assms(2)])

lemma set_format_outcome_with_dev:
  "outcome (ar0144_set_format K (with_dev d m) cfg fm) = outcome (ar0144_set_format K m cfg fm)"
  by (simp add: ar0144_set_format_def outcome_def Let_def split: ptr.splits)

lemma get_format_outcome_with_dev:
  "outcome (ar0144_get_format K (with_dev d m) cfg fm) = outcome (ar0144_get_format K m cfg fm)"
  by (simp add: ar0144_get_format_def outcome_def Let_def split: ptr.splits)

lemma get_selection_outcome_with_dev:
  "outcome (ar0144_get_selection K (with_dev d m) cfg sel) =
    outcome (ar0144_get_selection K m cfg sel)"
  by (simp add: ar0144_get_selection_def outcome_def split: ptr.splits)

lemma entity_init_cfg_eq:
  "ar0144_entity_init_cfg K m cfg =
    Inr (0, emit (m\<lparr>dev := (dev m)\<lparr>fmt := fixed_format K\<rparr>\<rparr>) [Mutex_lock, Mutex_unlock])"
  by (simp add: ar0144_entity_init_cfg_def Let_def set_format_valid)

lemma s_power_devD: "ar0144_s_power K b m on = (ret, m1) \<Longrightarrow> dev m1 = dev m"
  using s_power_dev [of K b m on] by simp

lemma probe_crop:
  assumes "ar0144_probe K b P t0 = Inr (ret, Some m)"
  shows "crop (dev m) = zero_rect"
  using assms
  by (auto simp add: ar0144_probe_def Let_def entity_init_cfg_eq dev_emit kzalloc_ar0144_def
      split: if_splits prod.splits option.splits dest!: s_power_devD)

lemma probe_example:
  "ar0144_probe example_hdr ok_bus ok_platform [] = Inr (0, Some probed)"
  "fmt (dev probed) = fixed_format example_hdr"
proof -
  let ?m3 = "emit \<lparr>dev = kzalloc_ar0144\<lparr>ep_bus_type := 4\<rparr>, log = []\<rparr>
      [Kernel_call ''of_node_put'', Kernel_call ''v4l2_i2c_subdev_init'',
       Kernel_call ''media_entity_pads_init'']"
  have on: "(1::int) \<noteq> 0" by simp
  have got: "i2c_master_recv ok_bus (log ?m3 @ power_up_prologue @ [id_read_send]) 2 =
      (2, 0x13, 0x56)"
    by (simp add: ok_bus_def answering_bus_def)
  have two: "(0::int) \<le> 2" by simp
  have id: "big_endian16 0x13 0x56 = AR0144_ID_VAL"
    by (simp add: big_endian16_def AR0144_ID_VAL_def)
  note power = s_power_all_ok [OF on ok_bus_sends got two id, of example_hdr]
  have "\<exists>m. ar0144_probe example_hdr ok_bus ok_platform [] = Inr (0, Some m) \<and>
      fmt (dev m) = fixed_format example_hdr"
    by (simp add: ar0144_probe_def Let_def ok_platform_def emit_emit dev_emit power
        entity_init_cfg_eq)
      (simp add: example_hdr_def)
  then obtain m where m: "ar0144_probe example_hdr ok_bus ok_platform [] = Inr (0, Some m)"
    and f: "fmt (dev m) = fixed_format example_hdr"
    by blast
  from m have "probed = m"
    by (simp add: probed_def)
  with m f show "ar0144_probe example_hdr ok_bus ok_platform [] = Inr (0, Some probed)"
    and "fmt (dev probed) = fixed_format example_hdr"
    by simp_all
qed

lemma set_format_after:
  assumes "which fm = V4L2_SUBDEV_FORMAT_TRY K \<or> which fm = V4L2_SUBDEV_FORMAT_ACTIVE K"
  shows "ar0144_set_format K m cfg fm =
    Inr (0, after_set_format K m, fm\<lparr>format := fixed_format K\<rparr>)"
  by (simp add: set_format_valid [OF assms] after_set_format_def)

lemma fmt_after_set_format: "fmt (dev (after_set_format K m)) = fixed_format K"
  by (simp add: after_set_format_def dev_emit)

subsection \<open>The sign of what power-up returns\<close>

lemma read_reg_Inl_neg: "fst (ar0144_read_reg b m reg) = Inl ret \<Longrightarrow> ret < 0"
  by (auto simp add: ar0144_read_reg_def Let_def case_prod_beta split: if_splits)

lemma s_power_nonpos:
  assumes "0 \<le> ENODEV K"
  shows "fst (ar0144_s_power K b m on) \<le> 0"
proof (cases "on = 0")
  case True
  then show ?thesis by (simp add: s_power_off)
next
  case False
  let ?m2 = "emit m power_up_prologue"
  show ?thesis
  proof (cases "fst (ar0144_read_reg b ?m2 AR0144_ID_REG)")
    case (Inl ret)
    with False read_reg_Inl_neg [OF Inl] show ?thesis
      by (simp add: ar0144_s_power_def Let_def power_up_prologue_def case_prod_beta emit_emit)
  next
    case (Inr reg_val)
    with False assms show ?thesis
      by (simp add: ar0144_s_power_def Let_def power_up_prologue_def case_prod_beta emit_emit
          set_register_array_nonpos)
  qed
qed

section \<open>The claims\<close>

text \<open>
  C1: for every call of \<open>ar0144_s_stream\<close> with a non-zero \<open>enable\<close> on a bus whose sends
  all succeed, the driver returns 0 and what it does is exactly: take the lock, send the
  PLL program, sleep 100 ms, send the lane and format program, the geometry and timing
  program, the binning program, the embedded-data-statistics program and the
  start-stream program, each entry in table order, and release the lock.
\<close>

theorem s_stream_start_order:
  assumes "\<forall>h bs. 0 \<le> i2c_master_send b h bs" and "enable \<noteq> 0"
  shows "ar0144_s_stream b m enable =
    (0, emit m ([Mutex_lock] @ program_writes ar0144at_pll_27mhz @ [Msleep 100] @
                program_writes ar0144at_mipi_2lane_12bit @
                program_writes ar0144at_1280x800_60fps @
                program_writes ar0144at_context_b_2x2_binning @
                program_writes ar0144at_embedded_data_stats @
                program_writes ar0144at_start_stream @ [Mutex_unlock]))"
  using assms by (rule s_stream_all_ok)

theorem s_stream_start_order_witness:
  "(\<forall>h bs. 0 \<le> i2c_master_send ok_bus h bs) \<and>
   ar0144_s_stream ok_bus fresh 1 =
    (0, emit fresh ([Mutex_lock] @ program_writes ar0144at_pll_27mhz @ [Msleep 100] @
                program_writes ar0144at_mipi_2lane_12bit @
                program_writes ar0144at_1280x800_60fps @
                program_writes ar0144at_context_b_2x2_binning @
                program_writes ar0144at_embedded_data_stats @
                program_writes ar0144at_start_stream @ [Mutex_unlock]))"
proof -
  have ok: "\<forall>h bs. 0 \<le> i2c_master_send ok_bus h bs"
    by (simp add: ok_bus_def answering_bus_def)
  have ne: "(1::int) \<noteq> 0" by simp
  from ok s_stream_start_order [OF ok ne, of fresh] show ?thesis by simp
qed

text \<open>
  C2, as the code has it: no operation has an invalid source state. The driver keeps no
  device state machine: \<open>ar0144_s_stream\<close> and \<open>ar0144_s_power\<close> return the same code and
  do the same things whatever the device structure holds, and leave the device structure
  as it was; whether a format or selection call returns 0, an error code or faults does
  not depend on the device structure either. What these calls return is decided by their
  arguments and by the answers of the bus alone.
\<close>

theorem operations_ignore_device_state:
  "ar0144_s_stream b (with_dev d m) enable =
     (fst (ar0144_s_stream b m enable), with_dev d (snd (ar0144_s_stream b m enable))) \<and>
   ar0144_s_power K b (with_dev d m) on =
     (fst (ar0144_s_power K b m on), with_dev d (snd (ar0144_s_power K b m on))) \<and>
   dev (snd (ar0144_s_stream b m enable)) = dev m \<and>
   dev (snd (ar0144_s_power K b m on)) = dev m \<and>
   outcome (ar0144_set_format K (with_dev d m) cfg fm) = outcome (ar0144_set_format K m cfg fm) \<and>
   outcome (ar0144_get_format K (with_dev d m) cfg fm) = outcome (ar0144_get_format K m cfg fm) \<and>
   outcome (ar0144_get_selection K (with_dev d m) cfg sel) =
     outcome (ar0144_get_selection K m cfg sel)"
  by (simp add: s_stream_with_dev s_power_with_dev s_stream_dev s_power_dev
      set_format_outcome_with_dev get_format_outcome_with_dev get_selection_outcome_with_dev)

theorem operations_ignore_device_state_witness:
  "ar0144_s_stream ok_bus (with_dev streaming_ar0144 fresh) 1 =
     (0, with_dev streaming_ar0144 (snd (ar0144_s_stream ok_bus fresh 1))) \<and>
   ar0144_s_power example_hdr ok_bus (with_dev streaming_ar0144 fresh) 1 =
     (0, with_dev streaming_ar0144 (snd (ar0144_s_power example_hdr ok_bus fresh 1))) \<and>
   streaming (dev (snd (ar0144_s_stream ok_bus fresh 1))) = False"
proof -
  have on: "(1::int) \<noteq> 0" by simp
  have got: "i2c_master_recv ok_bus (log fresh @ power_up_prologue @ [id_read_send]) 2 =
      (2, 0x13, 0x56)"
    by (simp add: ok_bus_def answering_bus_def)
  have two: "(0::int) \<le> 2" by simp
  have id: "big_endian16 0x13 0x56 = AR0144_ID_VAL"
    by (simp add: big_endian16_def AR0144_ID_VAL_def)
  have started: "fst (ar0144_s_stream ok_bus fresh 1) = 0"
    by (simp add: s_stream_all_ok [OF ok_bus_sends on])
  have powered: "fst (ar0144_s_power example_hdr ok_bus fresh 1) = 0"
    by (simp add: s_power_all_ok [OF on ok_bus_sends got two id])
  have flag: "streaming (dev fresh) = False"
    by (simp add: fresh_def kzalloc_ar0144_def)
  from operations_ignore_device_state [of ok_bus streaming_ar0144 fresh 1 example_hdr 1]
    started powered flag
  show ?thesis by simp
qed

text \<open>
  A start on a device that was never powered up succeeds and writes all 32 registers; a
  second start right after it succeeds again and writes 32 more; a stop on a device that
  was never started succeeds and writes the stop register.
\<close>

theorem start_from_any_state_counterexample:
  "fst (ar0144_s_stream ok_bus fresh 1) = 0 \<and>
   sends_so_far (log (snd (ar0144_s_stream ok_bus fresh 1))) = 32 \<and>
   fst (ar0144_s_stream ok_bus (snd (ar0144_s_stream ok_bus fresh 1)) 1) = 0 \<and>
   sends_so_far (log (snd (ar0144_s_stream ok_bus (snd (ar0144_s_stream ok_bus fresh 1)) 1))) = 64 \<and>
   fst (ar0144_s_stream ok_bus fresh 0) = 0 \<and>
   sends_so_far (log (snd (ar0144_s_stream ok_bus fresh 0))) = 1"
proof -
  have on: "(1::int) \<noteq> 0" by simp
  have empty: "sends_so_far (log fresh) = 0"
    by (simp add: fresh_def sends_so_far_def)
  have stop: "sends_so_far (log (snd (ar0144_s_stream ok_bus fresh 0))) = 1"
    by (simp add: s_stream_stop_all_ok [OF ok_bus_sends] log_emit sends_so_far_append
        sends_so_far_Cons sends_so_far_Nil sends_so_far_program_writes empty
        ar0144at_stop_stream_def)
  show ?thesis
    by (simp add: s_stream_all_ok_sends [OF ok_bus_sends on] empty stop)
      (simp add: s_stream_all_ok [OF ok_bus_sends on] s_stream_stop_all_ok [OF ok_bus_sends])
qed

text \<open>
  C3, as the code has it: for every register program and every \<open>k\<close> below its length
  such that the bus send of entry \<open>k\<close> returns a negative code and the sends of all
  earlier entries return non-negative codes, \<open>ar0144_set_register_array\<close> performs exactly
  the sends of entries 0 to \<open>k\<close> in order, attempts no later entry, logs one error line
  carrying the code, the address and the value of entry \<open>k\<close>, and returns the negative code
  of the bus unchanged; neither the index nor the address is part of what it returns. On
  a program whose sends all return non-negative codes it performs all sends in order and
  returns 0.
\<close>

theorem set_register_array_first_failure:
  "(k < length prog \<and> (\<forall>j<k. 0 \<le> send_ret b m prog j) \<and> send_ret b m prog k < 0 \<longrightarrow>
      ar0144_set_register_array b m prog =
        (send_ret b m prog k,
         emit m (program_writes (take (Suc k) prog) @
                 [write_error (send_ret b m prog k) (prog ! k)]))) \<and>
   ((\<forall>j<length prog. 0 \<le> send_ret b m prog j) \<longrightarrow>
      ar0144_set_register_array b m prog = (0, emit m (program_writes prog)))"
  using set_register_array_fails [of k prog b m] set_register_array_succeeds [of prog b m]
  by blast

theorem set_register_array_first_failure_witness:
  "ar0144_set_register_array (nack_at 2) fresh four_entries =
     (- 5, emit fresh [Bus_send [0x30, 0x40, 0x10, 0x00], Bus_send [0x30, 0x40, 0x10, 0x00],
                       Bus_send [0x30, 0xA8, 0x00, 0x03],
                       Dev_err ''write reg error'' [- 5, 0x30A8, 3]]) \<and>
   ar0144_set_register_array ok_bus fresh four_entries =
     (0, emit fresh [Bus_send [0x30, 0x40, 0x10, 0x00], Bus_send [0x30, 0x40, 0x10, 0x00],
                     Bus_send [0x30, 0xA8, 0x00, 0x03], Bus_send [0x30, 0xAE, 0x00, 0x03]])"
proof -
  have frames: "program_writes four_entries =
      [Bus_send [0x30, 0x40, 0x10, 0x00], Bus_send [0x30, 0x40, 0x10, 0x00],
       Bus_send [0x30, 0xA8, 0x00, 0x03], Bus_send [0x30, 0xAE, 0x00, 0x03]]"
    by (simp add: program_writes_def four_entries_def write_frame_def hi_byte_def lo_byte_def)
  have len: "length four_entries = 4"
    by (simp add: four_entries_def)
  have r0: "send_ret (nack_at 2) fresh four_entries 0 = 4"
    by (simp add: send_ret_def nack_at_def sends_so_far_def fresh_def write_frame_def
        program_writes_def)
  have r1: "send_ret (nack_at 2) fresh four_entries (Suc 0) = 4"
    by (simp add: send_ret_def nack_at_def sends_so_far_def fresh_def write_frame_def
        four_entries_def program_writes_def)
  have r2: "send_ret (nack_at 2) fresh four_entries 2 = - 5"
    by (simp add: send_ret_def nack_at_def sends_so_far_def fresh_def four_entries_def
        program_writes_def)
  have before: "\<forall>j<2. 0 \<le> send_ret (nack_at 2) fresh four_entries j"
    using r0 r1 by (simp add: numeral_2_eq_2 All_less_Suc)
  have all_ok: "\<forall>j<length four_entries. 0 \<le> send_ret ok_bus fresh four_entries j"
    by (simp add: send_ret_def ok_bus_def answering_bus_def)
  have third: "four_entries ! 2 = (0x30A8, 0x0003)"
    by (simp add: four_entries_def)
  have "take 3 four_entries = [(0x3040, 0x1000), (0x3040, 0x1000), (0x30A8, 0x0003)]"
    by (simp add: four_entries_def)
  then have sent: "program_writes (take 3 four_entries) =
      [Bus_send [0x30, 0x40, 0x10, 0x00], Bus_send [0x30, 0x40, 0x10, 0x00],
       Bus_send [0x30, 0xA8, 0x00, 0x03]]"
    by (simp add: program_writes_def write_frame_def hi_byte_def lo_byte_def)
  from set_register_array_first_failure [of 2 four_entries "nack_at 2" fresh]
    set_register_array_first_failure [of 0 four_entries ok_bus fresh]
    before all_ok
  show ?thesis
    by (simp add: r2 len third sent frames write_error_def)
qed

text \<open>
  The return code does not tell which entry failed: a failure of entry 0, of entry 1
  (the same register) and of entry 2 (another register) all return -5, after one, two
  and three sends.
\<close>

theorem set_register_array_failure_index_counterexample:
  "fst (ar0144_set_register_array (nack_at 0) fresh four_entries) = - 5 \<and>
   fst (ar0144_set_register_array (nack_at 1) fresh four_entries) = - 5 \<and>
   fst (ar0144_set_register_array (nack_at 2) fresh four_entries) = - 5 \<and>
   sends_so_far (log (snd (ar0144_set_register_array (nack_at 0) fresh four_entries))) = 1 \<and>
   sends_so_far (log (snd (ar0144_set_register_array (nack_at 1) fresh four_entries))) = 2 \<and>
   sends_so_far (log (snd (ar0144_set_register_array (nack_at 2) fresh four_entries))) = 3"
  by (simp add: ar0144_write_reg_def emit_def nack_at_def fresh_def four_entries_def
      sends_so_far_def Let_def)

text \<open>
  C4, as the code has it: whenever \<open>ar0144_s_power\<close> is asked to power up, the send of
  the identity register address and the receive of two bytes both succeed, and the two
  bytes compose to a value other than 0x1356, the driver returns \<open>-ENODEV\<close>; after the
  receive it only logs the wrong identity and releases the lock, so the bus sees no entry
  of the recommended-settings program, and the device structure is the one it was before
  the call. The driver records no device state and does not put the chip back into
  reset: the reset line stays released, and a start that follows on a bus whose sends
  succeed is accepted, sends its 32 register writes and returns 0.
\<close>

theorem s_power_identity_mismatch:
  assumes "on \<noteq> 0"
    and "0 \<le> i2c_master_send b (log m @ power_up_prologue)
                [hi_byte AR0144_ID_REG, lo_byte AR0144_ID_REG]"
    and "i2c_master_recv b (log m @ power_up_prologue @ [id_read_send]) 2 = (r, b0, b1)"
    and "0 \<le> r"
    and "big_endian16 b0 b1 \<noteq> AR0144_ID_VAL"
  shows "ar0144_s_power K b m on =
      (- ENODEV K,
       emit m (power_up_prologue @
         [id_read_send, Bus_recv 2,
          Dev_err ''wrong chip id'' [uint (big_endian16 b0 b1), uint AR0144_ID_VAL],
          Mutex_unlock])) \<and>
    bus_events (new_events m (snd (ar0144_s_power K b m on))) = [id_read_send, Bus_recv 2] \<and>
    dev (snd (ar0144_s_power K b m on)) = dev m \<and>
    reset_line (log (snd (ar0144_s_power K b m on))) = Some 0 \<and>
    ((\<forall>h bs. 0 \<le> i2c_master_send c h bs) \<and> enable \<noteq> 0 \<longrightarrow>
       fst (ar0144_s_stream c (snd (ar0144_s_power K b m on)) enable) = 0 \<and>
       sends_so_far (log (snd (ar0144_s_stream c (snd (ar0144_s_power K b m on)) enable))) =
         sends_so_far (log m) + 33)"
proof (intro conjI impI)
  note eq = s_power_mismatch [OF assms, of K]
  show "ar0144_s_power K b m on =
      (- ENODEV K,
       emit m (power_up_prologue @
         [id_read_send, Bus_recv 2,
          Dev_err ''wrong chip id'' [uint (big_endian16 b0 b1), uint AR0144_ID_VAL],
          Mutex_unlock]))"
    by (rule eq)
  show "bus_events (new_events m (snd (ar0144_s_power K b m on))) = [id_read_send, Bus_recv 2]"
    by (simp add: eq new_events_emit bus_events_def power_up_prologue_def id_read_send_def)
  show "dev (snd (ar0144_s_power K b m on)) = dev m"
    by (simp add: eq dev_emit)
  show "reset_line (log (snd (ar0144_s_power K b m on))) = Some 0"
    by (simp add: eq log_emit reset_line_def power_up_prologue_def id_read_send_def)
  have sent: "sends_so_far (log (snd (ar0144_s_power K b m on))) = sends_so_far (log m) + 1"
    by (simp add: eq log_emit sends_so_far_append)
      (simp add: sends_so_far_def power_up_prologue_def id_read_send_def)
  {
    assume ok: "(\<forall>h bs. 0 \<le> i2c_master_send c h bs) \<and> enable \<noteq> 0"
    then have sends: "\<forall>h bs. 0 \<le> i2c_master_send c h bs" and en: "enable \<noteq> 0"
      by simp_all
    show "fst (ar0144_s_stream c (snd (ar0144_s_power K b m on)) enable) = 0"
      by (simp add: s_stream_all_ok [OF sends en])
    show "sends_so_far (log (snd (ar0144_s_stream c (snd (ar0144_s_power K b m on)) enable))) =
        sends_so_far (log m) + 33"
      by (simp add: s_stream_all_ok_sends [OF sends en] sent)
  }
qed

theorem s_power_identity_mismatch_witness:
  "ar0144_s_power example_hdr wrong_id_bus fresh 1 =
      (- 19,
       emit fresh
         [Mutex_lock, Gpiod_direction_output 1, Msleep 2, Gpiod_set_value_cansleep 0,
          Msleep 10, Bus_send [0x30, 0x00], Bus_recv 2,
          Dev_err ''wrong chip id'' [0x2402, 0x1356], Mutex_unlock]) \<and>
    bus_events (new_events fresh (snd (ar0144_s_power example_hdr wrong_id_bus fresh 1))) =
      [Bus_send [0x30, 0x00], Bus_recv 2] \<and>
    dev (snd (ar0144_s_power example_hdr wrong_id_bus fresh 1)) = kzalloc_ar0144 \<and>
    reset_line (log (snd (ar0144_s_power example_hdr wrong_id_bus fresh 1))) = Some 0 \<and>
    fst (ar0144_s_stream ok_bus (snd (ar0144_s_power example_hdr wrong_id_bus fresh 1)) 1) = 0"
proof -
  have on: "(1::int) \<noteq> 0" by simp
  have sent: "0 \<le> i2c_master_send wrong_id_bus (log fresh @ power_up_prologue)
      [hi_byte AR0144_ID_REG, lo_byte AR0144_ID_REG]"
    by (simp add: wrong_id_bus_def answering_bus_def)
  have got: "i2c_master_recv wrong_id_bus (log fresh @ power_up_prologue @ [id_read_send]) 2 =
      (2, 0x24, 0x02)"
    by (simp add: wrong_id_bus_def answering_bus_def)
  have two: "(0::int) \<le> 2" by simp
  have val: "big_endian16 0x24 0x02 = 0x2402"
    by (simp add: big_endian16_def)
  then have other: "big_endian16 0x24 0x02 \<noteq> AR0144_ID_VAL"
    by (simp add: AR0144_ID_VAL_def)
  have errno: "ENODEV example_hdr = 19"
    by (simp add: example_hdr_def)
  have zeroed: "dev fresh = kzalloc_ar0144"
    by (simp add: fresh_def)
  note inst = s_power_identity_mismatch [OF on sent got two other, of example_hdr ok_bus 1]
  note c1 = inst [THEN conjunct1]
  note c2 = inst [THEN conjunct2, THEN conjunct1]
  note c3 = inst [THEN conjunct2, THEN conjunct2, THEN conjunct1]
  note c4 = inst [THEN conjunct2, THEN conjunct2, THEN conjunct2, THEN conjunct1]
  note c5 = inst [THEN conjunct2, THEN conjunct2, THEN conjunct2, THEN conjunct2]
  have eq: "ar0144_s_power example_hdr wrong_id_bus fresh 1 =
      (- 19,
       emit fresh
         [Mutex_lock, Gpiod_direction_output 1, Msleep 2, Gpiod_set_value_cansleep 0,
          Msleep 10, Bus_send [0x30, 0x00], Bus_recv 2,
          Dev_err ''wrong chip id'' [0x2402, 0x1356], Mutex_unlock])"
    by (simp add: c1 val power_up_prologue_def id_read_send_def id_reg_bytes AR0144_ID_VAL_def
        errno)
  have buses:
    "bus_events (new_events fresh (snd (ar0144_s_power example_hdr wrong_id_bus fresh 1))) =
      [Bus_send [0x30, 0x00], Bus_recv 2]"
    using c2 by (simp only: id_read_send_def id_reg_bytes)
  have same:
    "dev (snd (ar0144_s_power example_hdr wrong_id_bus fresh 1)) = kzalloc_ar0144"
    using c3 by (simp only: zeroed)
  note line = c4
  have start:
    "fst (ar0144_s_stream ok_bus (snd (ar0144_s_power example_hdr wrong_id_bus fresh 1)) 1) = 0"
    using c5 ok_bus_sends on by blast
  from eq buses same line start show ?thesis
    by (intro conjI)
qed

text \<open>
  After the identity mismatch the device is not held as a powered-down one: the call
  returns -19 with the reset line released (a power-down leaves it asserted), and the
  start that follows on the same bus is accepted, returns 0 and has sent its 32 register
  writes after the one send of the identity read.
\<close>

theorem s_power_mismatch_then_start_counterexample:
  "fst (ar0144_s_power example_hdr wrong_id_bus fresh 1) = - 19 \<and>
   reset_line (log (snd (ar0144_s_power example_hdr wrong_id_bus fresh 1))) = Some 0 \<and>
   reset_line (log (snd (ar0144_s_power example_hdr wrong_id_bus fresh 0))) = Some 1 \<and>
   fst (ar0144_s_stream wrong_id_bus
          (snd (ar0144_s_power example_hdr wrong_id_bus fresh 1)) 1) = 0 \<and>
   sends_so_far (log (snd (ar0144_s_stream wrong_id_bus
          (snd (ar0144_s_power example_hdr wrong_id_bus fresh 1)) 1))) = 33"
proof -
  have on: "(1::int) \<noteq> 0" by simp
  have empty: "log fresh = []"
    by (simp add: fresh_def)
  have sends: "\<forall>h bs. 0 \<le> i2c_master_send wrong_id_bus h bs"
    by (simp add: wrong_id_bus_def answering_bus_def)
  have sent: "0 \<le> i2c_master_send wrong_id_bus (log fresh @ power_up_prologue)
      [hi_byte AR0144_ID_REG, lo_byte AR0144_ID_REG]"
    using sends by blast
  have got: "i2c_master_recv wrong_id_bus (log fresh @ power_up_prologue @ [id_read_send]) 2 =
      (2, 0x24, 0x02)"
    by (simp add: wrong_id_bus_def answering_bus_def)
  have two: "(0::int) \<le> 2" by simp
  have other: "big_endian16 0x24 0x02 \<noteq> AR0144_ID_VAL"
    by (simp add: big_endian16_def AR0144_ID_VAL_def)
  note eq = s_power_mismatch [OF on sent got two other, of example_hdr]
  have errno: "ENODEV example_hdr = 19"
    by (simp add: example_hdr_def)
  have code: "fst (ar0144_s_power example_hdr wrong_id_bus fresh 1) = - 19"
    by (simp add: eq errno)
  have released: "reset_line (log (snd (ar0144_s_power example_hdr wrong_id_bus fresh 1))) = Some 0"
    by (simp add: eq log_emit reset_line_def power_up_prologue_def id_read_send_def empty)
  have asserted: "reset_line (log (snd (ar0144_s_power example_hdr wrong_id_bus fresh 0))) = Some 1"
    by (simp add: s_power_off log_emit reset_line_def empty)
  have before: "sends_so_far (log (snd (ar0144_s_power example_hdr wrong_id_bus fresh 1))) = 1"
    by (simp add: eq log_emit sends_so_far_def power_up_prologue_def id_read_send_def empty)
  have start: "fst (ar0144_s_stream wrong_id_bus
          (snd (ar0144_s_power example_hdr wrong_id_bus fresh 1)) 1) = 0"
    by (simp add: s_stream_all_ok [OF sends on])
  have count: "sends_so_far (log (snd (ar0144_s_stream wrong_id_bus
          (snd (ar0144_s_power example_hdr wrong_id_bus fresh 1)) 1))) = 33"
    by (simp add: s_stream_all_ok_sends [OF sends on] before)
  from code released asserted start count show ?thesis
    by (intro conjI)
qed

text \<open>
  C5, as the code has it: for every requested width, height and pixel code, on the trial
  or the active side, \<open>ar0144_set_format\<close> stores the fixed format (width 1280, height 800,
  the one pixel code, no field order, sRGB) in the device structure, hands it back in the
  request and returns 0. It does so in every state of the device and after every
  history, also between a successful start and the next stop: the driver has no busy
  check.
\<close>

theorem set_format_fixed:
  assumes "which fm = V4L2_SUBDEV_FORMAT_TRY K \<or> which fm = V4L2_SUBDEV_FORMAT_ACTIVE K"
  shows "ar0144_set_format K m cfg fm =
      Inr (0, emit (m\<lparr>dev := (dev m)\<lparr>fmt := fixed_format K\<rparr>\<rparr>) [Mutex_lock, Mutex_unlock],
           fm\<lparr>format := fixed_format K\<rparr>) \<and>
    width (fixed_format K) = 1280 \<and> height (fixed_format K) = 800 \<and>
    code (fixed_format K) = MEDIA_BUS_FMT_SRGGB12_1X12 K"
  by (simp add: set_format_valid [OF assms] fixed_format_def)

theorem set_format_fixed_witness:
  "fst (ar0144_s_stream ok_bus probed 1) = 0 \<and>
   ar0144_set_format example_hdr (snd (ar0144_s_stream ok_bus probed 1)) None (vga_request 1) =
     Inr (0, emit ((snd (ar0144_s_stream ok_bus probed 1))
                     \<lparr>dev := (dev (snd (ar0144_s_stream ok_bus probed 1)))
                               \<lparr>fmt := fixed_format example_hdr\<rparr>\<rparr>)
               [Mutex_lock, Mutex_unlock],
          (vga_request 1)\<lparr>format := \<lparr>width = 1280, height = 800, code = 0x3012, field = 1,
                                      colorspace = 8\<rparr>\<rparr>)"
proof -
  have w: "which (vga_request 1) = V4L2_SUBDEV_FORMAT_TRY example_hdr \<or>
      which (vga_request 1) = V4L2_SUBDEV_FORMAT_ACTIVE example_hdr"
    by (simp add: vga_request_def example_hdr_def)
  have f: "fixed_format example_hdr =
      \<lparr>width = 1280, height = 800, code = 0x3012, field = 1, colorspace = 8\<rparr>"
    by (simp add: fixed_format_def example_hdr_def)
  have on: "(1::int) \<noteq> 0" by simp
  have started: "fst (ar0144_s_stream ok_bus probed 1) = 0"
    by (simp add: s_stream_all_ok [OF ok_bus_sends on])
  from set_format_fixed [OF w, of "snd (ar0144_s_stream ok_bus probed 1)" None] started
  show ?thesis by (simp add: f)
qed

text \<open>
  After a successful probe and a successful start, a request for a 640 by 480 format is
  answered with success, not with a busy error.
\<close>

theorem set_format_while_streaming_counterexample:
  "ar0144_probe example_hdr ok_bus ok_platform [] = Inr (0, Some probed) \<and>
   fst (ar0144_s_stream ok_bus probed 1) = 0 \<and>
   outcome (ar0144_set_format example_hdr (snd (ar0144_s_stream ok_bus probed 1)) None
              (vga_request 1)) = Inr 0 \<and>
   outcome (ar0144_set_format example_hdr
              (with_dev streaming_ar0144 (snd (ar0144_s_stream ok_bus probed 1))) None
              (vga_request 1)) = Inr 0"
proof -
  have w: "which (vga_request 1) = V4L2_SUBDEV_FORMAT_TRY example_hdr \<or>
      which (vga_request 1) = V4L2_SUBDEV_FORMAT_ACTIVE example_hdr"
    by (simp add: vga_request_def example_hdr_def)
  have on: "(1::int) \<noteq> 0" by simp
  show ?thesis
    by (simp add: probe_example s_stream_all_ok [OF ok_bus_sends on] set_format_valid [OF w]
        outcome_def)
qed

text \<open>
  C6: in every call of \<open>ar0144_s_power\<close> with a non-zero \<open>on\<close>, the first things the driver
  does are, in this order: take the lock, drive the reset line to 1 (asserted), sleep 2 ms
  (more than the 1 ms minimum), set the reset line to 0, sleep 10 ms (the settle delay),
  and only then send the address of the identity register; none of the five events that
  come first is a bus transaction.
\<close>

theorem s_power_reset_before_bus:
  assumes "on \<noteq> 0"
  shows "take 6 (new_events m (snd (ar0144_s_power K b m on))) =
      [Mutex_lock, Gpiod_direction_output 1, Msleep 2, Gpiod_set_value_cansleep 0, Msleep 10,
       Bus_send [hi_byte AR0144_ID_REG, lo_byte AR0144_ID_REG]] \<and>
    bus_events (take 5 (new_events m (snd (ar0144_s_power K b m on)))) = []"
proof -
  from s_power_emit [OF assms, of K b m] obtain rest
    where "snd (ar0144_s_power K b m on) = emit m (power_up_prologue @ id_read_send # rest)"
    by blast
  then show ?thesis
    by (simp add: new_events_emit power_up_prologue_def id_read_send_def bus_events_def)
qed

theorem s_power_reset_before_bus_witness:
  "take 6 (new_events fresh (snd (ar0144_s_power example_hdr ok_bus fresh 1))) =
      [Mutex_lock, Gpiod_direction_output 1, Msleep 2, Gpiod_set_value_cansleep 0, Msleep 10,
       Bus_send [0x30, 0x00]] \<and>
    bus_events (take 5 (new_events fresh (snd (ar0144_s_power example_hdr ok_bus fresh 1)))) = []"
proof -
  have "(1::int) \<noteq> 0" by simp
  from s_power_reset_before_bus [OF this, of fresh example_hdr ok_bus]
  show ?thesis by (simp only: id_reg_bytes)
qed

text \<open>
  C7: for every 16-bit address and value, \<open>ar0144_write_reg\<close> puts exactly one
  transaction on the bus, the send of the four bytes address high, address low, value
  high, value low. For every address, \<open>ar0144_read_reg\<close> first sends the two address
  bytes, high byte first; when that send and the following receive of two bytes succeed
  it returns the received bytes composed big-endian, the first byte being the high byte
  of the result and the second its low byte.
\<close>

theorem transport_framing:
  "bus_events (new_events m (snd (ar0144_write_reg b m reg val))) =
      [Bus_send [hi_byte reg, lo_byte reg, hi_byte val, lo_byte val]] \<and>
   take 1 (new_events m (snd (ar0144_read_reg b m reg))) =
      [Bus_send [hi_byte reg, lo_byte reg]] \<and>
   (0 \<le> i2c_master_send b (log m) [hi_byte reg, lo_byte reg] \<and>
    i2c_master_recv b (log m @ [Bus_send [hi_byte reg, lo_byte reg]]) 2 = (r, b0, b1) \<and>
    0 \<le> r \<longrightarrow>
      ar0144_read_reg b m reg =
        (Inr (big_endian16 b0 b1), emit m [Bus_send [hi_byte reg, lo_byte reg], Bus_recv 2]) \<and>
      hi_byte (big_endian16 b0 b1) = b0 \<and> lo_byte (big_endian16 b0 b1) = b1)"
proof (intro conjI impI)
  show "bus_events (new_events m (snd (ar0144_write_reg b m reg val))) =
      [Bus_send [hi_byte reg, lo_byte reg, hi_byte val, lo_byte val]]"
    by (simp add: write_reg_eq new_events_emit bus_events_def write_frame_def write_error_def)
next
  from read_reg_send [of m b reg]
  show "take 1 (new_events m (snd (ar0144_read_reg b m reg))) =
      [Bus_send [hi_byte reg, lo_byte reg]]"
    by auto
next
  assume "0 \<le> i2c_master_send b (log m) [hi_byte reg, lo_byte reg] \<and>
    i2c_master_recv b (log m @ [Bus_send [hi_byte reg, lo_byte reg]]) 2 = (r, b0, b1) \<and>
    0 \<le> r"
  then show "ar0144_read_reg b m reg =
      (Inr (big_endian16 b0 b1), emit m [Bus_send [hi_byte reg, lo_byte reg], Bus_recv 2])"
    by (simp add: read_reg_ok)
next
  show "hi_byte (big_endian16 b0 b1) = b0"
    by (rule hi_byte_big_endian16)
next
  show "lo_byte (big_endian16 b0 b1) = b1"
    by (rule lo_byte_big_endian16)
qed

theorem transport_framing_witness:
  "bus_events (new_events fresh (snd (ar0144_write_reg ok_bus fresh 0x301A 0x005C))) =
      [Bus_send [0x30, 0x1A, 0x00, 0x5C]] \<and>
   take 1 (new_events fresh (snd (ar0144_read_reg ok_bus fresh 0x3000))) =
      [Bus_send [0x30, 0x00]] \<and>
   ar0144_read_reg ok_bus fresh 0x3000 =
      (Inr 0x1356, emit fresh [Bus_send [0x30, 0x00], Bus_recv 2])"
proof -
  have bytes: "hi_byte 0x301A = 0x30" "lo_byte 0x301A = 0x1A" "hi_byte 0x005C = 0x00"
      "lo_byte 0x005C = 0x5C" "hi_byte 0x3000 = 0x30" "lo_byte 0x3000 = 0x00"
      "big_endian16 0x13 0x56 = 0x1356"
    by (simp_all add: hi_byte_def lo_byte_def big_endian16_def)
  have sent: "0 \<le> i2c_master_send ok_bus (log fresh) [0x30, 0x00]"
    by (simp add: ok_bus_def answering_bus_def)
  have got: "i2c_master_recv ok_bus (log fresh @ [Bus_send [0x30, 0x00]]) 2 = (2, 0x13, 0x56)"
    by (simp add: ok_bus_def answering_bus_def)
  from transport_framing [of fresh ok_bus "0x301A" "0x005C" 2 "0x13" "0x56"]
  have w: "bus_events (new_events fresh (snd (ar0144_write_reg ok_bus fresh 0x301A 0x005C))) =
      [Bus_send [0x30, 0x1A, 0x00, 0x5C]]"
    by (simp only: bytes)
  from transport_framing [of fresh ok_bus "0x3000" "0x005C" 2 "0x13" "0x56"] sent got
  have r: "take 1 (new_events fresh (snd (ar0144_read_reg ok_bus fresh 0x3000))) =
      [Bus_send [0x30, 0x00]] \<and>
   ar0144_read_reg ok_bus fresh 0x3000 =
      (Inr 0x1356, emit fresh [Bus_send [0x30, 0x00], Bus_recv 2])"
    by (simp only: bytes) simp
  show ?thesis by (rule conjI [OF w r])
qed

text \<open>
  C8: what the code does. Whatever the bus and the platform answer, a device structure
  that \<open>ar0144_probe\<close> leaves behind has the all-zero crop rectangle of the zeroed
  allocation, and a query for the crop target returns that rectangle: left 0, top 0,
  width 0, height 0, not the 1280 by 800 array.
\<close>

theorem probe_leaves_crop_zero:
  assumes "ar0144_probe K b P t0 = Inr (ret, Some m)"
    and "sel_target sel = V4L2_SEL_TGT_CROP K"
    and "sel_which sel = V4L2_SUBDEV_FORMAT_TRY K \<or> sel_which sel = V4L2_SUBDEV_FORMAT_ACTIVE K"
  shows "ar0144_get_selection K m cfg sel = Inr (0, m, sel\<lparr>sel_r := zero_rect\<rparr>) \<and>
    zero_rect \<noteq> full_sensor_array"
  by (simp add: get_selection_valid [OF assms(2,3)] probe_crop [OF assms(1)] zero_rect_def
      full_sensor_array_def)

theorem probe_leaves_crop_zero_witness:
  "ar0144_probe example_hdr ok_bus ok_platform [] = Inr (0, Some probed) \<and>
   ar0144_get_selection example_hdr probed None crop_query =
     Inr (0, probed,
          crop_query\<lparr>sel_r := \<lparr>rect_left = 0, rect_top = 0, rect_width = 0, rect_height = 0\<rparr>\<rparr>) \<and>
   fmt (dev probed) = fixed_format example_hdr"
proof -
  have t: "sel_target crop_query = V4L2_SEL_TGT_CROP example_hdr"
    by (simp add: crop_query_def)
  have w: "sel_which crop_query = V4L2_SUBDEV_FORMAT_TRY example_hdr \<or>
      sel_which crop_query = V4L2_SUBDEV_FORMAT_ACTIVE example_hdr"
    by (simp add: crop_query_def)
  from probe_leaves_crop_zero [OF probe_example(1) t w, of None] probe_example
  show ?thesis by (simp add: zero_rect_def)
qed

text \<open>
  C9: the two pointer helpers return the address of the \<open>fmt\<close>, respectively the \<open>crop\<close>,
  member of the device structure both for \<open>V4L2_SUBDEV_FORMAT_TRY\<close> and for
  \<open>V4L2_SUBDEV_FORMAT_ACTIVE\<close>, and the null pointer for every other value. Hence a
  \<open>ar0144_set_format\<close> call on the trial side stores the fixed format in the device
  structure, and a following \<open>ar0144_get_format\<close> call on the active side returns it.
\<close>

theorem try_and_active_share_storage:
  "uu_ar0144_get_pad_format K cfg pd (V4L2_SUBDEV_FORMAT_TRY K) = Ptr Ar0144_fmt \<and>
   uu_ar0144_get_pad_format K cfg pd (V4L2_SUBDEV_FORMAT_ACTIVE K) = Ptr Ar0144_fmt \<and>
   uu_ar0144_get_pad_crop K cfg pd (V4L2_SUBDEV_FORMAT_TRY K) = Ptr Ar0144_crop \<and>
   uu_ar0144_get_pad_crop K cfg pd (V4L2_SUBDEV_FORMAT_ACTIVE K) = Ptr Ar0144_crop \<and>
   (whence \<noteq> V4L2_SUBDEV_FORMAT_TRY K \<and> whence \<noteq> V4L2_SUBDEV_FORMAT_ACTIVE K \<longrightarrow>
      uu_ar0144_get_pad_format K cfg pd whence = NULL \<and>
      uu_ar0144_get_pad_crop K cfg pd whence = NULL) \<and>
   (which fm = V4L2_SUBDEV_FORMAT_TRY K \<and> which gm = V4L2_SUBDEV_FORMAT_ACTIVE K \<longrightarrow>
      ar0144_set_format K m cfg fm =
        Inr (0, after_set_format K m, fm\<lparr>format := fixed_format K\<rparr>) \<and>
      fmt (dev (after_set_format K m)) = fixed_format K \<and>
      ar0144_get_format K (after_set_format K m) cfg2 gm =
        Inr (0, emit (after_set_format K m) [Mutex_lock, Mutex_unlock],
             gm\<lparr>format := fixed_format K\<rparr>))"
  by (simp add: uu_ar0144_get_pad_format_def uu_ar0144_get_pad_crop_def set_format_after
      get_format_valid fmt_after_set_format)

theorem try_and_active_share_storage_witness:
  "fmt (dev fresh) = zero_framefmt \<and>
   ar0144_set_format example_hdr fresh (Some zero_cfg) (vga_request 0) =
     Inr (0, after_set_format example_hdr fresh,
          (vga_request 0)\<lparr>format := fixed_format example_hdr\<rparr>) \<and>
   ar0144_get_format example_hdr (after_set_format example_hdr fresh) None (vga_request 1) =
     Inr (0, emit (after_set_format example_hdr fresh) [Mutex_lock, Mutex_unlock],
          (vga_request 1)\<lparr>format := fixed_format example_hdr\<rparr>) \<and>
   uu_ar0144_get_pad_format example_hdr None 0 2 = NULL \<and>
   uu_ar0144_get_pad_crop example_hdr None 0 2 = NULL"
proof -
  have w: "which (vga_request 0) = V4L2_SUBDEV_FORMAT_TRY example_hdr"
      "which (vga_request 1) = V4L2_SUBDEV_FORMAT_ACTIVE example_hdr"
      "(2::u32) \<noteq> V4L2_SUBDEV_FORMAT_TRY example_hdr"
      "(2::u32) \<noteq> V4L2_SUBDEV_FORMAT_ACTIVE example_hdr"
    by (simp_all add: vga_request_def example_hdr_def)
  have z: "fmt (dev fresh) = zero_framefmt"
    by (simp add: fresh_def kzalloc_ar0144_def)
  from try_and_active_share_storage [of example_hdr "Some zero_cfg" 0 2 "vga_request 0"
      "vga_request 1" fresh None]
    try_and_active_share_storage [of example_hdr None 0 2 "vga_request 0"
      "vga_request 1" fresh None] w z
  show ?thesis by simp
qed

text \<open>
  C10: on a bus whose sends all succeed, \<open>ar0144_write_reg\<close> returns what the bus send
  returned (the byte count 4 on the usual adapter), while \<open>ar0144_set_register_array\<close>
  returns 0, \<open>ar0144_s_stream\<close> returns 0 for starting and for stopping, and \<open>ar0144_s_power\<close>
  returns 0 for powering down and, when the identity read delivers 0x1356, for powering
  up. On any bus at all, the runner and \<open>ar0144_s_stream\<close> never return a positive code,
  nor does \<open>ar0144_s_power\<close> (its \<open>-ENODEV\<close> being the negative of an errno). The format,
  selection and enumeration calls return 0 whenever they do not return an error.
\<close>

theorem success_is_zero:
  assumes "\<forall>h bs. 0 \<le> i2c_master_send b h bs"
  shows "fst (ar0144_write_reg b m reg val) = i2c_master_send b (log m) (write_frame reg val) \<and>
    fst (ar0144_set_register_array b m prog) = 0 \<and>
    fst (ar0144_s_stream b m enable) = 0 \<and>
    fst (ar0144_s_power K b m 0) = 0 \<and>
    (on \<noteq> 0 \<and> i2c_master_recv b (log m @ power_up_prologue @ [id_read_send]) 2 = (r, b0, b1) \<and>
     0 \<le> r \<and> big_endian16 b0 b1 = AR0144_ID_VAL \<longrightarrow> fst (ar0144_s_power K b m on) = 0) \<and>
    fst (ar0144_set_register_array c m prog) \<le> 0 \<and>
    fst (ar0144_s_stream c m enable) \<le> 0 \<and>
    (0 \<le> ENODEV K \<longrightarrow> fst (ar0144_s_power K c m on) \<le> 0) \<and>
    (which fm = V4L2_SUBDEV_FORMAT_TRY K \<or> which fm = V4L2_SUBDEV_FORMAT_ACTIVE K \<longrightarrow>
       outcome (ar0144_set_format K m cfg fm) = Inr 0 \<and>
       outcome (ar0144_get_format K m cfg fm) = Inr 0) \<and>
    (sel_target sel = V4L2_SEL_TGT_CROP K \<and>
     (sel_which sel = V4L2_SUBDEV_FORMAT_TRY K \<or> sel_which sel = V4L2_SUBDEV_FORMAT_ACTIVE K) \<longrightarrow>
       outcome (ar0144_get_selection K m cfg sel) = Inr 0) \<and>
    (mce_index e = 0 \<longrightarrow> fst (ar0144_enum_mbus_code K cfg e) = 0) \<and>
    (fse_code q = MEDIA_BUS_FMT_SRGGB12_1X12 K \<and> fse_index q = 0 \<longrightarrow>
       fst (ar0144_enum_frame_size K cfg q) = 0)"
proof (intro conjI impI)
  show "fst (ar0144_write_reg b m reg val) = i2c_master_send b (log m) (write_frame reg val)"
    by (simp add: write_reg_eq)
  show "fst (ar0144_set_register_array b m prog) = 0"
    by (simp add: set_register_array_all_ok [OF assms])
  show "fst (ar0144_s_stream b m enable) = 0"
    by (cases "enable = 0")
      (simp_all add: s_stream_stop_all_ok [OF assms] s_stream_all_ok [OF assms])
  show "fst (ar0144_s_power K b m 0) = 0"
    by (simp add: s_power_off)
  show "fst (ar0144_set_register_array c m prog) \<le> 0"
    by (rule set_register_array_nonpos)
  show "fst (ar0144_s_stream c m enable) \<le> 0"
    by (rule s_stream_nonpos)
next
  assume "on \<noteq> 0 \<and> i2c_master_recv b (log m @ power_up_prologue @ [id_read_send]) 2 = (r, b0, b1) \<and>
     0 \<le> r \<and> big_endian16 b0 b1 = AR0144_ID_VAL"
  then show "fst (ar0144_s_power K b m on) = 0"
    using s_power_all_ok [of on b m r b0 b1 K] assms by simp
next
  assume "0 \<le> ENODEV K"
  then show "fst (ar0144_s_power K c m on) \<le> 0"
    by (rule s_power_nonpos)
next
  assume w: "which fm = V4L2_SUBDEV_FORMAT_TRY K \<or> which fm = V4L2_SUBDEV_FORMAT_ACTIVE K"
  show "outcome (ar0144_set_format K m cfg fm) = Inr 0"
    by (simp add: set_format_valid [OF w] outcome_def)
  show "outcome (ar0144_get_format K m cfg fm) = Inr 0"
    by (simp add: get_format_valid [OF w] outcome_def)
next
  assume "sel_target sel = V4L2_SEL_TGT_CROP K \<and>
     (sel_which sel = V4L2_SUBDEV_FORMAT_TRY K \<or> sel_which sel = V4L2_SUBDEV_FORMAT_ACTIVE K)"
  then show "outcome (ar0144_get_selection K m cfg sel) = Inr 0"
    by (simp add: get_selection_valid outcome_def)
next
  assume "mce_index e = 0"
  then show "fst (ar0144_enum_mbus_code K cfg e) = 0"
    by (simp add: ar0144_enum_mbus_code_def)
next
  assume "fse_code q = MEDIA_BUS_FMT_SRGGB12_1X12 K \<and> fse_index q = 0"
  then show "fst (ar0144_enum_frame_size K cfg q) = 0"
    by (simp add: ar0144_enum_frame_size_def)
qed

theorem success_is_zero_witness:
  "(\<forall>h bs. 0 \<le> i2c_master_send ok_bus h bs) \<and>
   fst (ar0144_write_reg ok_bus fresh 0x301A 0x005C) = 4 \<and>
   fst (ar0144_set_register_array ok_bus fresh ar0144at_start_stream) = 0 \<and>
   fst (ar0144_s_stream ok_bus fresh 1) = 0 \<and>
   fst (ar0144_s_stream ok_bus fresh 0) = 0 \<and>
   fst (ar0144_s_power example_hdr ok_bus fresh 0) = 0 \<and>
   fst (ar0144_s_power example_hdr ok_bus fresh 1) = 0 \<and>
   fst (ar0144_s_power example_hdr wrong_id_bus fresh 1) \<le> 0 \<and>
   outcome (ar0144_set_format example_hdr fresh None (vga_request 1)) = Inr 0 \<and>
   outcome (ar0144_get_selection example_hdr fresh None crop_query) = Inr 0 \<and>
   fst (ar0144_enum_mbus_code example_hdr None \<lparr>mce_pad = 0, mce_index = 0, mce_code = 0\<rparr>) = 0"
proof -
  have got: "i2c_master_recv ok_bus (log fresh @ power_up_prologue @ [id_read_send]) 2 =
      (2, 0x13, 0x56)"
    by (simp add: ok_bus_def answering_bus_def)
  have id: "big_endian16 0x13 0x56 = AR0144_ID_VAL"
    by (simp add: big_endian16_def AR0144_ID_VAL_def)
  have count: "i2c_master_send ok_bus (log fresh) (write_frame 0x301A 0x005C) = 4"
    by (simp add: ok_bus_def answering_bus_def write_frame_def)
  have w: "which (vga_request 1) = V4L2_SUBDEV_FORMAT_ACTIVE example_hdr"
    by (simp add: vga_request_def example_hdr_def)
  have errno: "0 \<le> ENODEV example_hdr"
    by (simp add: example_hdr_def)
  have sel: "sel_target crop_query = V4L2_SEL_TGT_CROP example_hdr"
      "sel_which crop_query = V4L2_SUBDEV_FORMAT_ACTIVE example_hdr"
    by (simp_all add: crop_query_def)
  have idx: "mce_index \<lparr>mce_pad = 0, mce_index = 0, mce_code = 0\<rparr> = 0"
    by simp
  note inst = success_is_zero [OF ok_bus_sends, where m = fresh and reg = "0x301A"
      and val = "0x005C" and prog = ar0144at_start_stream and K = example_hdr and on = 1
      and r = 2 and ?b0.0 = "0x13" and ?b1.0 = "0x56" and c = wrong_id_bus
      and fm = "vga_request 1" and cfg = None and sel = crop_query
      and e = "\<lparr>mce_pad = 0, mce_index = 0, mce_code = 0\<rparr>"]
  from inst [where enable = 1] inst [where enable = 0] ok_bus_sends got id count w errno sel idx
  show ?thesis by simp
qed

end
